theory Spec2Isabelle
  imports Main
begin

section \<open>Python values, exceptions and the backend client\<close>

text \<open>
  The adapter \<^verbatim>\<open>ticketing/tools/zammad_client.py\<close> is duck-typed: every value that
  crosses its boundary is an arbitrary Python object. The values the code inspects are
  modelled by one datatype. \<open>PDict\<close> is a dictionary with string keys in insertion
  order (a lookup takes the first binding of a key). \<open>PObj\<close> is any other object,
  described by what the code asks of it: its truth value, the items it yields when it is
  iterated (\<open>None\<close>: iterating raises \<^verbatim>\<open>TypeError\<close>), a handle of its callable
  \<^verbatim>\<open>next_page\<close> attribute and a handle of its \<^verbatim>\<open>read\<close> attribute (\<open>None\<close>:
  the attribute is missing). Strings and byte strings are lists of 8-bit characters.
\<close>

datatype exn_kind =
    TypeError | AttributeError | ValueError | EnvironmentError | RuntimeError
  | BinasciiError | OtherError

text \<open>An exception (a subclass of \<^verbatim>\<open>Exception\<close>): its class and \<^verbatim>\<open>str(e)\<close>.\<close>

datatype exn = Exn (kind: exn_kind) (msg: string)

datatype pyval =
    PNone
  | PBool bool
  | PInt int
  | PStr string
  | PBytes string
  | PList "pyval list"
  | PDict "(string \<times> pyval) list"
  | PObj bool "pyval list option" "nat option" "nat option"

text \<open>\<^verbatim>\<open>bool(v)\<close>, the test of \<^verbatim>\<open>if v:\<close> and \<^verbatim>\<open>if not v:\<close>.\<close>

fun truthy :: "pyval \<Rightarrow> bool" where
  "truthy PNone = False"
| "truthy (PBool b) = b"
| "truthy (PInt n) = (n \<noteq> 0)"
| "truthy (PStr s) = (s \<noteq> [])"
| "truthy (PBytes s) = (s \<noteq> [])"
| "truthy (PList xs) = (xs \<noteq> [])"
| "truthy (PDict kvs) = (kvs \<noteq> [])"
| "truthy (PObj t it nx rd) = t"

text \<open>The items \<^verbatim>\<open>list.extend(v)\<close> appends; \<open>None\<close> when it raises \<^verbatim>\<open>TypeError\<close>.\<close>

fun py_iter :: "pyval \<Rightarrow> pyval list option" where
  "py_iter (PList xs) = Some xs"
| "py_iter (PDict kvs) = Some (map (\<lambda>kv. PStr (fst kv)) kvs)"
| "py_iter (PStr s) = Some (map (\<lambda>c. PStr [c]) s)"
| "py_iter (PBytes s) = Some (map (\<lambda>c. PInt (of_char c)) s)"
| "py_iter (PObj t it nx rd) = it"
| "py_iter v = None"

text \<open>\<^verbatim>\<open>hasattr(v, "next_page") and callable(getattr(v, "next_page"))\<close>.\<close>

fun next_page_of :: "pyval \<Rightarrow> nat option" where
  "next_page_of (PObj t it nx rd) = nx"
| "next_page_of v = None"

fun read_of :: "pyval \<Rightarrow> nat option" where
  "read_of (PObj t it nx rd) = rd"
| "read_of v = None"

fun type_name :: "pyval \<Rightarrow> string" where
  "type_name PNone = ''NoneType''"
| "type_name (PBool b) = ''bool''"
| "type_name (PInt n) = ''int''"
| "type_name (PStr s) = ''str''"
| "type_name (PBytes s) = ''bytes''"
| "type_name (PList xs) = ''list''"
| "type_name (PDict kvs) = ''dict''"
| "type_name (PObj t it nx rd) = ''object''"

text \<open>\<^verbatim>\<open>v.get(key, default)\<close>: only a dictionary has the method.\<close>

fun py_get :: "pyval \<Rightarrow> string \<Rightarrow> pyval \<Rightarrow> exn + pyval" where
  "py_get (PDict kvs) k d = Inr (case map_of kvs k of None \<Rightarrow> d | Some v \<Rightarrow> v)"
| "py_get v k d =
     Inl (Exn AttributeError
       ([CHR 0x27] @ type_name v @ [CHR 0x27] @ '' object has no attribute '' @
        [CHR 0x27] @ ''get'' @ [CHR 0x27]))"

text \<open>\<^verbatim>\<open>v == i\<close> for an integer \<open>i\<close>: \<^verbatim>\<open>True == 1\<close> and \<^verbatim>\<open>False == 0\<close> hold.\<close>

fun py_eq_int :: "pyval \<Rightarrow> int \<Rightarrow> bool" where
  "py_eq_int (PInt n) i = (n = i)"
| "py_eq_int (PBool b) i = ((if b then 1 else 0) = i)"
| "py_eq_int v i = False"

subsection \<open>Backend calls\<close>

text \<open>
  One constructor per call shape the adapter uses on the client object. A keyword call
  and a positional call of the same method are different shapes: a client wrapper may
  accept one and raise \<^verbatim>\<open>TypeError\<close> on the other. \<open>NextPage h\<close> and \<open>Read h\<close>
  call the method of the object that carries the handle \<open>h\<close>.
\<close>

datatype call =
    TicketAll
  | TicketFind int
  | TicketUpdateKw int pyval
  | TicketUpdatePos int pyval
  | ArticleAll
  | ArticleFindKw int pyval
  | ArticleFindPos pyval
  | ArticleCreateKw pyval
  | ArticleCreatePos pyval
  | ArticleCreateIdPos int pyval
  | ArticleCreateExpanded pyval
  | AttachmentAllKw int pyval
  | AttachmentAllPos int pyval
  | AttachmentDownloadKw int int int
  | AttachmentDownloadPos int int int
  | GenericDownloadKw int
  | GenericDownloadPos int
  | TopLevelDownload
  | PriorityAll
  | NextPage nat
  | Read nat

text \<open>The attribute of the client object a call goes through.\<close>

fun resource :: "call \<Rightarrow> string option" where
  "resource TicketAll = Some ''ticket''"
| "resource (TicketFind i) = Some ''ticket''"
| "resource (TicketUpdateKw i p) = Some ''ticket''"
| "resource (TicketUpdatePos i p) = Some ''ticket''"
| "resource ArticleAll = Some ''ticket_article''"
| "resource (ArticleFindKw i a) = Some ''ticket_article''"
| "resource (ArticleFindPos a) = Some ''ticket_article''"
| "resource (ArticleCreateKw p) = Some ''ticket_article''"
| "resource (ArticleCreatePos p) = Some ''ticket_article''"
| "resource (ArticleCreateIdPos i p) = Some ''ticket_article''"
| "resource (ArticleCreateExpanded p) = Some ''ticket_article''"
| "resource (AttachmentAllKw i a) = Some ''ticket_article_attachment''"
| "resource (AttachmentAllPos i a) = Some ''ticket_article_attachment''"
| "resource (AttachmentDownloadKw a i b) = Some ''ticket_article_attachment''"
| "resource (AttachmentDownloadPos a i b) = Some ''ticket_article_attachment''"
| "resource (GenericDownloadKw a) = Some ''attachment''"
| "resource (GenericDownloadPos a) = Some ''attachment''"
| "resource TopLevelDownload = Some ''download''"
| "resource PriorityAll = Some ''ticket_priority''"
| "resource (NextPage h) = None"
| "resource (Read h) = None"

text \<open>
  A client object, as the library's constructor \<^verbatim>\<open>ZammadAPI(url, username, password)\<close>
  returns it: which attributes it has, and what a call returns or raises. The answer may
  depend on the calls made before (the trace), so that a call can fail once and succeed
  when it is repeated.
\<close>

record client =
  has_attr :: "string \<Rightarrow> bool"
  respond :: "call list \<Rightarrow> call \<Rightarrow> exn + pyval"

text \<open>
  What the adapter does not define itself: the process environment (\<^verbatim>\<open>os.getenv\<close>)
  and the constructor of the client library.
\<close>

record world =
  environ :: "string \<Rightarrow> string option"
  ZammadAPI :: "string \<Rightarrow> string option \<Rightarrow> string option \<Rightarrow> exn + client"

text \<open>
  A call on the client: a missing attribute raises \<^verbatim>\<open>AttributeError\<close> before anything
  reaches the backend; otherwise the call is recorded in the trace.
\<close>

definition invoke :: "client \<Rightarrow> call list \<Rightarrow> call \<Rightarrow> (exn + pyval) \<times> call list" where
  "invoke cl tr c =
     (case resource c of
        None \<Rightarrow> (respond cl tr c, tr @ [c])
      | Some a \<Rightarrow>
          if has_attr cl a then (respond cl tr c, tr @ [c])
          else (Inl (Exn AttributeError
                  ([CHR 0x27] @ ''ZammadAPI'' @ [CHR 0x27] @ '' object has no attribute '' @
                   [CHR 0x27] @ a @ [CHR 0x27])), tr))"

section \<open>Connection factory\<close>

text \<open>\<^verbatim>\<open>s.rstrip("/")\<close>.\<close>

definition rstrip_slash :: "string \<Rightarrow> string" where
  "rstrip_slash s = rev (dropWhile (\<lambda>c. c = CHR ''/'') (rev s))"

definition init_zammad_client :: "world \<Rightarrow> exn + client" where
  "init_zammad_client w =
     (case environ w ''zammad_url'' of
        None \<Rightarrow> Inl (Exn EnvironmentError ''Environment variable `zammad_url` is not set'')
      | Some url_base \<Rightarrow>
          if url_base = [] then
            Inl (Exn EnvironmentError ''Environment variable `zammad_url` is not set'')
          else
            ZammadAPI w (rstrip_slash url_base @ ''/api/v1/'')
              (environ w ''zammad_username'') (environ w ''zammad_password''))"

section \<open>Page collector\<close>

text \<open>
  \<^verbatim>\<open>try: items.extend(page) / except TypeError: items.append(page)\<close>.
\<close>

definition extend_or_append :: "pyval list \<Rightarrow> pyval \<Rightarrow> pyval list" where
  "extend_or_append items page =
     (case py_iter page of Some xs \<Rightarrow> items @ xs | None \<Rightarrow> items @ [page])"

text \<open>
  The \<^verbatim>\<open>while\<close> loop of \<^verbatim>\<open>_collect_pages\<close>. Nothing bounds it: a backend whose
  \<^verbatim>\<open>next_page()\<close> always returns a truthy page keeps it running, and then the value
  is \<open>None\<close>. An exception of \<^verbatim>\<open>next_page()\<close> leaves the function.
\<close>

partial_function (option) collect_loop ::
  "client \<Rightarrow> call list \<Rightarrow> pyval \<Rightarrow> pyval list \<Rightarrow> ((exn + pyval list) \<times> call list) option"
where
  "collect_loop cl tr page items =
     (case next_page_of page of
        None \<Rightarrow> Some (Inr items, tr)
      | Some h \<Rightarrow>
          (case respond cl tr (NextPage h) of
             Inl e \<Rightarrow> Some (Inl e, tr @ [NextPage h])
           | Inr page' \<Rightarrow>
               if \<not> truthy page' then Some (Inr items, tr @ [NextPage h])
               else collect_loop cl (tr @ [NextPage h]) page' (extend_or_append items page')))"

declare collect_loop.simps [code]

definition collect_pages ::
  "client \<Rightarrow> call list \<Rightarrow> pyval \<Rightarrow> ((exn + pyval list) \<times> call list) option"
where
  "collect_pages cl tr first_page =
     (if \<not> truthy first_page then Some (Inr [], tr)
      else collect_loop cl tr first_page (extend_or_append [] first_page))"

section \<open>Library functions the adapter calls\<close>

text \<open>
  \<^verbatim>\<open>str\<close>, \<^verbatim>\<open>str.lower\<close>, \<^verbatim>\<open>json.dumps\<close> and \<^verbatim>\<open>base64.b64decode\<close> belong to
  Python, not to the adapter. They are written out here as CPython computes them, for
  strings of code points below 256.
\<close>

definition digit_char :: "nat \<Rightarrow> char" where
  "digit_char n = ''0123456789abcdef'' ! (n mod 16)"

fun show_nat :: "nat \<Rightarrow> string" where
  "show_nat n = (if n < 10 then [digit_char n] else show_nat (n div 10) @ [digit_char (n mod 10)])"

declare show_nat.simps [simp del]

definition show_int :: "int \<Rightarrow> string" where
  "show_int i = (if i < 0 then ''-'' @ show_nat (nat (- i)) else show_nat (nat i))"

definition hex2 :: "nat \<Rightarrow> string" where
  "hex2 n = [digit_char (n div 16), digit_char n]"

definition squote :: char where "squote = CHR 0x27"
definition dquote :: char where "dquote = CHR 0x22"
definition bslash :: char where "bslash = CHR 0x5C"

text \<open>The quote \<^verbatim>\<open>repr\<close> chooses: double quotes only for a text with \<^verbatim>\<open>'\<close> and no \<^verbatim>\<open>"\<close>.\<close>

definition repr_quote :: "string \<Rightarrow> char" where
  "repr_quote s = (if squote \<in> set s \<and> dquote \<notin> set s then dquote else squote)"

definition repr_char :: "bool \<Rightarrow> char \<Rightarrow> char \<Rightarrow> string" where
  "repr_char is_bytes q c =
     (let n = (of_char c :: nat) in
      if c = bslash then [bslash, bslash]
      else if c = q then [bslash, q]
      else if n = 9 then [bslash, CHR ''t'']
      else if n = 10 then [bslash, CHR ''n'']
      else if n = 13 then [bslash, CHR ''r'']
      else if n < 32 \<or> n = 127 then [bslash, CHR ''x''] @ hex2 n
      else if n \<ge> 128 \<and> (is_bytes \<or> n \<le> 160 \<or> n = 173) then [bslash, CHR ''x''] @ hex2 n
      else [c])"

definition repr_text :: "bool \<Rightarrow> string \<Rightarrow> string" where
  "repr_text is_bytes s =
     (let q = repr_quote s in [q] @ concat (map (repr_char is_bytes q) s) @ [q])"

text \<open>
  \<^verbatim>\<open>repr(v)\<close>. The text of an arbitrary object depends on its class and address; the
  model prints a fixed text for it.
\<close>

fun py_repr :: "pyval \<Rightarrow> string"
  and repr_list :: "pyval list \<Rightarrow> string"
  and repr_items :: "(string \<times> pyval) list \<Rightarrow> string"
where
  "py_repr PNone = ''None''"
| "py_repr (PBool b) = (if b then ''True'' else ''False'')"
| "py_repr (PInt i) = show_int i"
| "py_repr (PStr s) = repr_text False s"
| "py_repr (PBytes s) = ''b'' @ repr_text True s"
| "py_repr (PList xs) = ''['' @ repr_list xs @ '']''"
| "py_repr (PDict kvs) = ''{'' @ repr_items kvs @ ''}''"
| "py_repr (PObj t it nx rd) = ''<object>''"
| "repr_list [] = []"
| "repr_list [x] = py_repr x"
| "repr_list (x # y # ys) = py_repr x @ '', '' @ repr_list (y # ys)"
| "repr_items [] = []"
| "repr_items [(k, v)] = repr_text False k @ '': '' @ py_repr v"
| "repr_items ((k, v) # kv # kvs) =
     repr_text False k @ '': '' @ py_repr v @ '', '' @ repr_items (kv # kvs)"

text \<open>\<^verbatim>\<open>str(v)\<close>, which is also what an f-string prints for \<^verbatim>\<open>{v}\<close>.\<close>

definition py_str :: "pyval \<Rightarrow> string" where
  "py_str v = (case v of PStr s \<Rightarrow> s | _ \<Rightarrow> py_repr v)"

definition lower_char :: "char \<Rightarrow> char" where
  "lower_char c =
     (let n = (of_char c :: nat) in
      if (65 \<le> n \<and> n \<le> 90) \<or> (192 \<le> n \<and> n \<le> 222 \<and> n \<noteq> 215) then char_of (n + 32) else c)"

definition py_lower :: "string \<Rightarrow> string" where
  "py_lower s = map lower_char s"

text \<open>\<^verbatim>\<open>json.dumps(v)\<close> with its defaults (\<^verbatim>\<open>ensure_ascii=True\<close>, separators \<^verbatim>\<open>", "\<close> and \<^verbatim>\<open>": "\<close>).\<close>

definition json_char :: "char \<Rightarrow> string" where
  "json_char c =
     (let n = (of_char c :: nat) in
      if c = dquote then [bslash, dquote]
      else if c = bslash then [bslash, bslash]
      else if n = 10 then [bslash, CHR ''n'']
      else if n = 13 then [bslash, CHR ''r'']
      else if n = 9 then [bslash, CHR ''t'']
      else if n = 8 then [bslash, CHR ''b'']
      else if n = 12 then [bslash, CHR ''f'']
      else if n < 32 \<or> n \<ge> 127 then [bslash, CHR ''u'', CHR ''0'', CHR ''0''] @ hex2 n
      else [c])"

definition json_string :: "string \<Rightarrow> string" where
  "json_string s = [dquote] @ concat (map json_char s) @ [dquote]"

definition not_serializable :: "pyval \<Rightarrow> exn" where
  "not_serializable v =
     Exn TypeError (''Object of type '' @ type_name v @ '' is not JSON serializable'')"

fun json_dumps :: "pyval \<Rightarrow> exn + string"
  and json_list :: "pyval list \<Rightarrow> exn + string"
  and json_items :: "(string \<times> pyval) list \<Rightarrow> exn + string"
where
  "json_dumps PNone = Inr ''null''"
| "json_dumps (PBool b) = Inr (if b then ''true'' else ''false'')"
| "json_dumps (PInt i) = Inr (show_int i)"
| "json_dumps (PStr s) = Inr (json_string s)"
| "json_dumps (PBytes s) = Inl (not_serializable (PBytes s))"
| "json_dumps (PList xs) =
     (case json_list xs of Inl e \<Rightarrow> Inl e | Inr s \<Rightarrow> Inr (''['' @ s @ '']''))"
| "json_dumps (PDict kvs) =
     (case json_items kvs of Inl e \<Rightarrow> Inl e | Inr s \<Rightarrow> Inr (''{'' @ s @ ''}''))"
| "json_dumps (PObj t it nx rd) = Inl (not_serializable (PObj t it nx rd))"
| "json_list [] = Inr []"
| "json_list [x] = json_dumps x"
| "json_list (x # y # ys) =
     (case json_dumps x of
        Inl e \<Rightarrow> Inl e
      | Inr s \<Rightarrow> (case json_list (y # ys) of Inl e \<Rightarrow> Inl e | Inr r \<Rightarrow> Inr (s @ '', '' @ r)))"
| "json_items [] = Inr []"
| "json_items [(k, v)] =
     (case json_dumps v of Inl e \<Rightarrow> Inl e | Inr s \<Rightarrow> Inr (json_string k @ '': '' @ s))"
| "json_items ((k, v) # kv # kvs) =
     (case json_dumps v of
        Inl e \<Rightarrow> Inl e
      | Inr s \<Rightarrow>
          (case json_items (kv # kvs) of
             Inl e \<Rightarrow> Inl e
           | Inr r \<Rightarrow> Inr (json_string k @ '': '' @ s @ '', '' @ r)))"

text \<open>
  \<^verbatim>\<open>base64.b64decode(s)\<close> with \<^verbatim>\<open>validate=False\<close>, that is
  \<^verbatim>\<open>binascii.a2b_base64\<close> in its lenient mode: a character outside the alphabet is
  skipped, a pad that completes a quad ends the input, and left-over characters of an
  incomplete quad raise \<^verbatim>\<open>binascii.Error\<close>.
\<close>

definition b64_value :: "char \<Rightarrow> nat option" where
  "b64_value c =
     (let n = (of_char c :: nat) in
      if 65 \<le> n \<and> n \<le> 90 then Some (n - 65)
      else if 97 \<le> n \<and> n \<le> 122 then Some (n - 71)
      else if 48 \<le> n \<and> n \<le> 57 then Some (n + 4)
      else if n = 43 then Some 62
      else if n = 47 then Some 63
      else None)"

fun a2b_base64 :: "string \<Rightarrow> nat \<Rightarrow> nat \<Rightarrow> nat \<Rightarrow> string \<Rightarrow> exn + string" where
  "a2b_base64 [] quad_pos leftchar pads out =
     (if quad_pos = 0 then Inr out
      else if quad_pos = 1 then
        Inl (Exn BinasciiError
          (''Invalid base64-encoded string: number of data characters ('' @
           show_nat (length out div 3 * 4 + 1) @
           '') cannot be 1 more than a multiple of 4''))
      else Inl (Exn BinasciiError ''Incorrect padding''))"
| "a2b_base64 (c # cs) quad_pos leftchar pads out =
     (if c = CHR ''='' then
        (if quad_pos \<ge> 2 \<and> quad_pos + (pads + 1) \<ge> 4 then Inr out
         else a2b_base64 cs quad_pos leftchar (if quad_pos \<ge> 2 then pads + 1 else pads) out)
      else
        (case b64_value c of
           None \<Rightarrow> a2b_base64 cs quad_pos leftchar pads out
         | Some v \<Rightarrow>
             if quad_pos = 0 then a2b_base64 cs 1 v 0 out
             else if quad_pos = 1 then
               a2b_base64 cs 2 (v mod 16) 0 (out @ [char_of (leftchar * 4 + v div 16)])
             else if quad_pos = 2 then
               a2b_base64 cs 3 (v mod 4) 0 (out @ [char_of (leftchar * 16 + v div 4)])
             else a2b_base64 cs 0 0 0 (out @ [char_of (leftchar * 64 + v)])))"

definition b64decode :: "pyval \<Rightarrow> exn + string" where
  "b64decode v =
     (case v of
        PStr s \<Rightarrow>
          if list_all (\<lambda>c. (of_char c :: nat) < 128) s then a2b_base64 s 0 0 0 []
          else Inl (Exn ValueError ''string argument should contain only ASCII characters'')
      | PBytes s \<Rightarrow> a2b_base64 s 0 0 0 []
      | _ \<Rightarrow>
          Inl (Exn TypeError
            (''argument should be a bytes-like object or ASCII string, not '' @
             [squote] @ type_name v @ [squote])))"

section \<open>Ticket read operations\<close>

definition get_all_tickets ::
  "world \<Rightarrow> call list \<Rightarrow> ((exn + pyval list) \<times> call list) option"
where
  "get_all_tickets w tr =
     (case init_zammad_client w of
        Inl e \<Rightarrow> Some (Inl e, tr)
      | Inr cl \<Rightarrow>
          (case invoke cl tr TicketAll of
             (Inl e, tr1) \<Rightarrow> Some (Inl e, tr1)
           | (Inr page, tr1) \<Rightarrow> collect_pages cl tr1 page))"

definition get_ticket :: "world \<Rightarrow> call list \<Rightarrow> int \<Rightarrow> (exn + pyval) \<times> call list" where
  "get_ticket w tr ticket_id =
     (case init_zammad_client w of
        Inl e \<Rightarrow> (Inl e, tr)
      | Inr cl \<Rightarrow> invoke cl tr (TicketFind ticket_id))"

text \<open>
  \<^verbatim>\<open>[a for a in all_articles if a.get("ticket_id") == ticket_id]\<close>: the comprehension
  raises \<^verbatim>\<open>AttributeError\<close> at the first item without a \<^verbatim>\<open>get\<close> method.
\<close>

fun filter_by_ticket :: "pyval list \<Rightarrow> int \<Rightarrow> exn + pyval list" where
  "filter_by_ticket [] ticket_id = Inr []"
| "filter_by_ticket (a # as) ticket_id =
     (case py_get a ''ticket_id'' PNone of
        Inl e \<Rightarrow> Inl e
      | Inr v \<Rightarrow>
          (case filter_by_ticket as ticket_id of
             Inl e \<Rightarrow> Inl e
           | Inr rest \<Rightarrow> Inr (if py_eq_int v ticket_id then a # rest else rest)))"

definition get_ticket_articles ::
  "world \<Rightarrow> call list \<Rightarrow> int \<Rightarrow> ((exn + pyval list) \<times> call list) option"
where
  "get_ticket_articles w tr ticket_id =
     (case init_zammad_client w of
        Inl e \<Rightarrow> Some (Inl e, tr)
      | Inr cl \<Rightarrow>
          (case (case invoke cl tr ArticleAll of
                   (Inl e, tr1) \<Rightarrow>
                     if kind e = TypeError then invoke cl tr1 ArticleAll else (Inl e, tr1)
                 | (Inr page, tr1) \<Rightarrow> (Inr page, tr1)) of
             (Inl e, tr2) \<Rightarrow> Some (Inl e, tr2)
           | (Inr page, tr2) \<Rightarrow>
               (case collect_pages cl tr2 page of
                  None \<Rightarrow> None
                | Some (Inl e, tr3) \<Rightarrow> Some (Inl e, tr3)
                | Some (Inr all_articles, tr3) \<Rightarrow>
                    Some (filter_by_ticket all_articles ticket_id, tr3))))"

definition get_all_articles ::
  "world \<Rightarrow> call list \<Rightarrow> ((exn + pyval list) \<times> call list) option"
where
  "get_all_articles w tr =
     (case init_zammad_client w of
        Inl e \<Rightarrow> Some (Inl e, tr)
      | Inr cl \<Rightarrow>
          (case invoke cl tr ArticleAll of
             (Inl e, tr1) \<Rightarrow> Some (Inl e, tr1)
           | (Inr page, tr1) \<Rightarrow> collect_pages cl tr1 page))"

section \<open>Ticket write operations\<close>

text \<open>
  \<^verbatim>\<open>try: return client.ticket.update(id=ticket_id, params=params)\<close> /
  \<^verbatim>\<open>except TypeError: return client.ticket.update(ticket_id, params)\<close>.
\<close>

definition update_ticket ::
  "client \<Rightarrow> call list \<Rightarrow> int \<Rightarrow> pyval \<Rightarrow> (exn + pyval) \<times> call list"
where
  "update_ticket cl tr ticket_id params =
     (case invoke cl tr (TicketUpdateKw ticket_id params) of
        (Inl e, tr1) \<Rightarrow>
          if kind e = TypeError then invoke cl tr1 (TicketUpdatePos ticket_id params)
          else (Inl e, tr1)
      | (Inr r, tr1) \<Rightarrow> (Inr r, tr1))"

definition set_ticket_state ::
  "world \<Rightarrow> call list \<Rightarrow> int \<Rightarrow> string option \<Rightarrow> int option \<Rightarrow> (exn + pyval) \<times> call list"
where
  "set_ticket_state w tr ticket_id state state_id =
     (case init_zammad_client w of
        Inl e \<Rightarrow> (Inl e, tr)
      | Inr cl \<Rightarrow>
          (let params =
                 (case state_id of None \<Rightarrow> [] | Some i \<Rightarrow> [(''state_id'', PInt i)]) @
                 (case state of None \<Rightarrow> [] | Some s \<Rightarrow> [(''state'', PStr s)])
           in if params = [] then
                (Inl (Exn ValueError ''Either state or state_id must be provided''), tr)
              else update_ticket cl tr ticket_id (PDict params)))"

text \<open>
  The loop of \<^verbatim>\<open>set_ticket_priority\<close> over the listed priorities: the id of the first
  one whose name matches, \<open>PNone\<close> when none does.
\<close>

fun find_priority :: "pyval list \<Rightarrow> string \<Rightarrow> exn + pyval" where
  "find_priority [] priority_name = Inr PNone"
| "find_priority (p # ps) priority_name =
     (case py_get p ''name'' (PStr []) of
        Inl e \<Rightarrow> Inl e
      | Inr nm \<Rightarrow>
          if py_lower (py_str nm) = py_lower priority_name then py_get p ''id'' PNone
          else find_priority ps priority_name)"

text \<open>
  The \<^verbatim>\<open>try\<close> block that resolves a name: any exception in it sets
  \<^verbatim>\<open>priority_id = None\<close>.
\<close>

definition resolve_priority ::
  "client \<Rightarrow> call list \<Rightarrow> string \<Rightarrow> (pyval \<times> call list) option"
where
  "resolve_priority cl tr priority_name =
     (case invoke cl tr PriorityAll of
        (Inl e, tr1) \<Rightarrow> Some (PNone, tr1)
      | (Inr page, tr1) \<Rightarrow>
          (case collect_pages cl tr1 page of
             None \<Rightarrow> None
           | Some (Inl e, tr2) \<Rightarrow> Some (PNone, tr2)
           | Some (Inr priorities, tr2) \<Rightarrow>
               Some (case find_priority priorities priority_name of
                       Inl e \<Rightarrow> PNone
                     | Inr v \<Rightarrow> v, tr2)))"

definition set_ticket_priority ::
  "world \<Rightarrow> call list \<Rightarrow> int \<Rightarrow> int option \<Rightarrow> string option \<Rightarrow>
   ((exn + pyval) \<times> call list) option"
where
  "set_ticket_priority w tr ticket_id priority_id priority_name =
     (case init_zammad_client w of
        Inl e \<Rightarrow> Some (Inl e, tr)
      | Inr cl \<Rightarrow>
          if priority_id = None \<and> priority_name = None then
            Some (Inl (Exn ValueError ''Either priority_id or priority_name must be provided''), tr)
          else
            (case (case priority_id of
                     Some i \<Rightarrow> Some (PInt i, tr)
                   | None \<Rightarrow>
                       (case priority_name of
                          None \<Rightarrow> Some (PNone, tr)
                        | Some nm \<Rightarrow> resolve_priority cl tr nm)) of
               None \<Rightarrow> None
             | Some (pid, tr1) \<Rightarrow>
                 if pid = PNone then
                   Some (Inl (Exn ValueError
                     ''Could not resolve priority id; provide a valid priority_id or priority_name''),
                     tr1)
                 else Some (update_ticket cl tr1 ticket_id (PDict [(''priority_id'', pid)]))))"

section \<open>Attachment discovery\<close>

text \<open>First strategy: the \<^verbatim>\<open>attachments\<close> field of the article fetched by ticket and id.\<close>

definition embedded_attachments ::
  "client \<Rightarrow> call list \<Rightarrow> int \<Rightarrow> pyval \<Rightarrow> pyval option \<times> call list"
where
  "embedded_attachments cl tr ticket_id article_id =
     (case invoke cl tr (ArticleFindKw ticket_id article_id) of
        (Inl e, tr1) \<Rightarrow> (None, tr1)
      | (Inr art, tr1) \<Rightarrow>
          (if truthy art then
             (case art of
                PDict kvs \<Rightarrow>
                  (case map_of kvs ''attachments'' of
                     None \<Rightarrow> None
                   | Some att \<Rightarrow> if truthy att then Some att else None)
              | _ \<Rightarrow> None)
           else None, tr1))"

text \<open>
  Second strategy: the attachment-listing endpoint, by keyword and, after a
  \<^verbatim>\<open>TypeError\<close>, by position (\<open>attachment_page\<close> is the inner \<^verbatim>\<open>try\<close>, whose
  positional branch turns any exception into \<^verbatim>\<open>page = None\<close>).
\<close>

definition attachment_page ::
  "client \<Rightarrow> call list \<Rightarrow> int \<Rightarrow> pyval \<Rightarrow> (exn + pyval) \<times> call list"
where
  "attachment_page cl tr ticket_id article_id =
     (case invoke cl tr (AttachmentAllKw ticket_id article_id) of
        (Inr page, tr1) \<Rightarrow> (Inr page, tr1)
      | (Inl e, tr1) \<Rightarrow>
          if kind e = TypeError then
            (case invoke cl tr1 (AttachmentAllPos ticket_id article_id) of
               (Inr page, tr2) \<Rightarrow> (Inr page, tr2)
             | (Inl e2, tr2) \<Rightarrow> (Inr PNone, tr2))
          else (Inl e, tr1))"

definition listed_attachments ::
  "client \<Rightarrow> call list \<Rightarrow> int \<Rightarrow> pyval \<Rightarrow> (pyval option \<times> call list) option"
where
  "listed_attachments cl tr ticket_id article_id =
     (if \<not> has_attr cl ''ticket_article_attachment'' then Some (None, tr)
      else
        (case attachment_page cl tr ticket_id article_id of
           (Inl e, tr3) \<Rightarrow> Some (None, tr3)
         | (Inr page, tr3) \<Rightarrow>
             if truthy page then
               (case collect_pages cl tr3 page of
                  None \<Rightarrow> None
                | Some (Inl e, tr4) \<Rightarrow> Some (None, tr4)
                | Some (Inr attachments, tr4) \<Rightarrow> Some (Some (PList attachments), tr4))
             else Some (None, tr3)))"

text \<open>
  Third strategy: the article fetched by its id alone, and the first of the three legacy
  fields that holds a non-empty list.
\<close>

definition synthesize :: "pyval \<Rightarrow> pyval" where
  "synthesize v =
     (case v of
        PDict kvs \<Rightarrow> PDict kvs
      | _ \<Rightarrow> PDict [(''id'', v), (''filename'', PStr (''attachment_'' @ py_str v))])"

fun legacy_fields :: "(string \<times> pyval) list \<Rightarrow> string list \<Rightarrow> pyval option" where
  "legacy_fields art2 [] = None"
| "legacy_fields art2 (key # keys) =
     (case map_of art2 key of
        None \<Rightarrow> legacy_fields art2 keys
      | Some vals \<Rightarrow>
          if truthy vals then
            (case vals of
               PList vs \<Rightarrow> Some (PList (map synthesize vs))
             | _ \<Rightarrow> legacy_fields art2 keys)
          else legacy_fields art2 keys)"

definition legacy_attachments ::
  "client \<Rightarrow> call list \<Rightarrow> pyval \<Rightarrow> pyval option \<times> call list"
where
  "legacy_attachments cl tr article_id =
     (case invoke cl tr (ArticleFindPos article_id) of
        (Inl e, tr1) \<Rightarrow> (None, tr1)
      | (Inr art2, tr1) \<Rightarrow>
          (case art2 of
             PDict kvs \<Rightarrow>
               legacy_fields kvs [''attachment_ids'', ''attachments_ids'', ''attachments'']
           | _ \<Rightarrow> None, tr1))"

definition list_article_attachments ::
  "world \<Rightarrow> call list \<Rightarrow> int \<Rightarrow> pyval \<Rightarrow> ((exn + pyval) \<times> call list) option"
where
  "list_article_attachments w tr ticket_id article_id =
     (case init_zammad_client w of
        Inl e \<Rightarrow> Some (Inl e, tr)
      | Inr cl \<Rightarrow>
          (case embedded_attachments cl tr ticket_id article_id of
             (Some att, tr1) \<Rightarrow> Some (Inr att, tr1)
           | (None, tr1) \<Rightarrow>
               (case listed_attachments cl tr1 ticket_id article_id of
                  None \<Rightarrow> None
                | Some (Some attachments, tr2) \<Rightarrow> Some (Inr attachments, tr2)
                | Some (None, tr2) \<Rightarrow>
                    (case legacy_attachments cl tr2 article_id of
                       (Some out, tr3) \<Rightarrow> Some (Inr out, tr3)
                     | (None, tr3) \<Rightarrow> Some (Inr (PList []), tr3)))))"

section \<open>Consolidated ticket view\<close>

text \<open>
  The dictionary \<^verbatim>\<open>attachments_map\<close> is keyed by whatever \<^verbatim>\<open>art.get("id")\<close> returns.
  A list or a dictionary cannot be a key: the assignment raises \<^verbatim>\<open>TypeError\<close>. Keys
  are compared as Python compares them (\<^verbatim>\<open>1 == True\<close>).
\<close>

fun hashable :: "pyval \<Rightarrow> bool" where
  "hashable (PList xs) = False"
| "hashable (PDict kvs) = False"
| "hashable v = True"

fun num_of :: "pyval \<Rightarrow> int option" where
  "num_of (PInt n) = Some n"
| "num_of (PBool b) = Some (if b then 1 else 0)"
| "num_of v = None"

definition key_eq :: "pyval \<Rightarrow> pyval \<Rightarrow> bool" where
  "key_eq a b =
     (case (num_of a, num_of b) of
        (Some x, Some y) \<Rightarrow> x = y
      | (None, None) \<Rightarrow> a = b
      | _ \<Rightarrow> False)"

fun dict_store :: "(pyval \<times> pyval) list \<Rightarrow> pyval \<Rightarrow> pyval \<Rightarrow> (pyval \<times> pyval) list" where
  "dict_store [] k v = [(k, v)]"
| "dict_store ((k', v') # m) k v =
     (if key_eq k' k then (k', v) # m else (k', v') # dict_store m k v)"

record ticket_detail =
  ticket :: pyval
  articles :: "pyval list"
  attachments :: "(pyval \<times> pyval) list"

text \<open>Lines 121 to 129: all articles filtered, else the ticket-scoped call, else nothing.\<close>

definition fetch_articles ::
  "world \<Rightarrow> call list \<Rightarrow> int \<Rightarrow> (pyval list \<times> call list) option"
where
  "fetch_articles w tr ticket_id =
     (case get_all_articles w tr of
        None \<Rightarrow> None
      | Some (r, tr1) \<Rightarrow>
          (case (case r of Inl e \<Rightarrow> Inl e | Inr all_articles \<Rightarrow> filter_by_ticket all_articles ticket_id) of
             Inr arts \<Rightarrow> Some (arts, tr1)
           | Inl e \<Rightarrow>
               (case get_ticket_articles w tr1 ticket_id of
                  None \<Rightarrow> None
                | Some (Inl e2, tr2) \<Rightarrow> Some ([], tr2)
                | Some (Inr arts, tr2) \<Rightarrow> Some (arts, tr2))))"

text \<open>The loop \<^verbatim>\<open>for art in articles\<close> of lines 133 to 139.\<close>

fun attach_loop ::
  "world \<Rightarrow> call list \<Rightarrow> int \<Rightarrow> pyval list \<Rightarrow> (pyval \<times> pyval) list \<Rightarrow>
   ((exn + (pyval \<times> pyval) list) \<times> call list) option"
where
  "attach_loop w tr ticket_id [] attachments_map = Some (Inr attachments_map, tr)"
| "attach_loop w tr ticket_id (art # arts) attachments_map =
     (case py_get art ''id'' PNone of
        Inl e \<Rightarrow> Some (Inl e, tr)
      | Inr aid \<Rightarrow>
          (case list_article_attachments w tr ticket_id aid of
             None \<Rightarrow> None
           | Some (r, tr1) \<Rightarrow>
               if hashable aid then
                 attach_loop w tr1 ticket_id arts
                   (dict_store attachments_map aid (case r of Inl e \<Rightarrow> PList [] | Inr atts \<Rightarrow> atts))
               else
                 Some (Inl (Exn TypeError
                   (''unhashable type: '' @ [squote] @ type_name aid @ [squote])), tr1)))"

definition get_ticket_details ::
  "world \<Rightarrow> call list \<Rightarrow> int \<Rightarrow> bool \<Rightarrow> ((exn + ticket_detail) \<times> call list) option"
where
  "get_ticket_details w tr ticket_id include_attachments =
     (case init_zammad_client w of
        Inl e \<Rightarrow> Some (Inl e, tr)
      | Inr cl \<Rightarrow>
          (case get_ticket w tr ticket_id of
             (r, tr1) \<Rightarrow>
               (let tk = (case r of
                            Inr t \<Rightarrow> t
                          | Inl e \<Rightarrow> PDict [(''id'', PInt ticket_id), (''error'', PStr (msg e))])
                in case fetch_articles w tr1 ticket_id of
                     None \<Rightarrow> None
                   | Some (arts, tr2) \<Rightarrow>
                       (case (if include_attachments then attach_loop w tr2 ticket_id arts []
                              else Some (Inr [], tr2)) of
                          None \<Rightarrow> None
                        | Some (Inl e, tr3) \<Rightarrow> Some (Inl e, tr3)
                        | Some (Inr amap, tr3) \<Rightarrow>
                            Some (Inr \<lparr>ticket = tk, articles = arts, attachments = amap\<rparr>, tr3)))))"

section \<open>Call-shape probing\<close>

text \<open>
  The closures of the \<^verbatim>\<open>callers\<close> lists: a plain call, a call guarded by
  \<^verbatim>\<open>getattr(client, "ticket", None) and ...\<close>, and
  \<^verbatim>\<open>getattr(client, "download", lambda *a, **k: None)()\<close>.
\<close>

datatype caller = Direct call | ViaTicket call | DownloadOrNone

fun run_caller :: "client \<Rightarrow> call list \<Rightarrow> caller \<Rightarrow> (exn + pyval) \<times> call list" where
  "run_caller cl tr (Direct c) = invoke cl tr c"
| "run_caller cl tr (ViaTicket c) =
     (if has_attr cl ''ticket'' then invoke cl tr c else (Inr PNone, tr))"
| "run_caller cl tr DownloadOrNone =
     (if has_attr cl ''download'' then invoke cl tr TopLevelDownload else (Inr PNone, tr))"

text \<open>
  The loop \<^verbatim>\<open>for c in callers\<close>, which \<^verbatim>\<open>send_message_to_ticket\<close> and
  \<^verbatim>\<open>download_attachment\<close> both write out: the first truthy response ends it, an
  exception is kept in \<^verbatim>\<open>last_error\<close> and the next caller is tried.
\<close>

fun try_callers ::
  "client \<Rightarrow> call list \<Rightarrow> caller list \<Rightarrow> exn option \<Rightarrow> (pyval option \<times> exn option) \<times> call list"
where
  "try_callers cl tr [] last_error = ((None, last_error), tr)"
| "try_callers cl tr (c # cs) last_error =
     (case run_caller cl tr c of
        (Inl e, tr1) \<Rightarrow> try_callers cl tr1 cs (Some e)
      | (Inr resp, tr1) \<Rightarrow>
          if truthy resp then ((Some resp, last_error), tr1)
          else try_callers cl tr1 cs last_error)"

text \<open>\<^verbatim>\<open>f"{last_error}"\<close>.\<close>

definition show_error :: "exn option \<Rightarrow> string" where
  "show_error last_error = (case last_error of None \<Rightarrow> ''None'' | Some e \<Rightarrow> msg e)"

section \<open>Posting a message\<close>

text \<open>\<^verbatim>\<open>d[k] = v\<close> and \<^verbatim>\<open>d.update(other)\<close> on a dictionary with string keys.\<close>

fun dict_set :: "(string \<times> pyval) list \<Rightarrow> string \<Rightarrow> pyval \<Rightarrow> (string \<times> pyval) list" where
  "dict_set [] k v = [(k, v)]"
| "dict_set ((k', v') # m) k v = (if k' = k then (k', v) # m else (k', v') # dict_set m k v)"

fun dict_update :: "(string \<times> pyval) list \<Rightarrow> (string \<times> pyval) list \<Rightarrow> (string \<times> pyval) list" where
  "dict_update m [] = m"
| "dict_update m ((k, v) # kvs) = dict_update (dict_set m k v) kvs"

definition message_params ::
  "int \<Rightarrow> string \<Rightarrow> string option \<Rightarrow> int option \<Rightarrow> bool \<Rightarrow> string option \<Rightarrow>
   (string \<times> pyval) list option \<Rightarrow> (string \<times> pyval) list"
where
  "message_params ticket_id message subject author_id internal article_type additional_params =
     (let p0 = [(''ticket_id'', PInt ticket_id), (''body'', PStr message), (''internal'', PBool internal)];
          p1 = (case subject of None \<Rightarrow> p0 | Some s \<Rightarrow> dict_set p0 ''subject'' (PStr s));
          p2 = (case author_id of None \<Rightarrow> p1 | Some a \<Rightarrow> dict_set p1 ''author_id'' (PInt a));
          p3 = (case article_type of None \<Rightarrow> p2 | Some t \<Rightarrow> dict_set p2 ''type'' (PStr t))
      in case additional_params of None \<Rightarrow> p3 | Some extra \<Rightarrow> dict_update p3 extra)"

definition message_callers :: "client \<Rightarrow> int \<Rightarrow> pyval \<Rightarrow> caller list" where
  "message_callers cl ticket_id params =
     (if has_attr cl ''ticket_article'' then
        [Direct (ArticleCreateKw params), Direct (ArticleCreatePos params),
         Direct (ArticleCreateIdPos ticket_id params), Direct (ArticleCreateExpanded params)]
      else []) @
     [ViaTicket (TicketUpdateKw ticket_id (PDict [(''article'', params)])),
      ViaTicket (TicketUpdatePos ticket_id (PDict [(''article'', params)]))]"

definition send_message_to_ticket ::
  "world \<Rightarrow> call list \<Rightarrow> int \<Rightarrow> string \<Rightarrow> string option \<Rightarrow> int option \<Rightarrow> bool \<Rightarrow>
   string option \<Rightarrow> (string \<times> pyval) list option \<Rightarrow> (exn + pyval) \<times> call list"
where
  "send_message_to_ticket w tr ticket_id message subject author_id internal article_type
     additional_params =
     (case init_zammad_client w of
        Inl e \<Rightarrow> (Inl e, tr)
      | Inr cl \<Rightarrow>
          (case try_callers cl tr
                  (message_callers cl ticket_id
                     (PDict (message_params ticket_id message subject author_id internal
                               article_type additional_params))) None of
             ((Some resp, last_error), tr1) \<Rightarrow> (Inr resp, tr1)
           | ((None, last_error), tr1) \<Rightarrow>
               (Inl (Exn RuntimeError
                  (''Could not create ticket article. Last error: '' @ show_error last_error)),
                tr1)))"

section \<open>Attachment download\<close>

definition download_callers :: "client \<Rightarrow> int \<Rightarrow> int \<Rightarrow> int \<Rightarrow> caller list" where
  "download_callers cl attachment_id ticket_id article_id =
     (if has_attr cl ''ticket_article_attachment'' then
        [Direct (AttachmentDownloadKw attachment_id ticket_id article_id),
         Direct (AttachmentDownloadPos attachment_id ticket_id article_id)]
      else []) @
     (if has_attr cl ''attachment'' then
        [Direct (GenericDownloadKw attachment_id), Direct (GenericDownloadPos attachment_id)]
      else []) @
     [DownloadOrNone]"

text \<open>
  Lines 293 to 312, "Extract bytes from response". Only the last branch guards
  \<^verbatim>\<open>json.dumps\<close>; in the two dictionary branches its exception leaves the function.
\<close>

definition serialize :: "pyval \<Rightarrow> exn + pyval" where
  "serialize resp = (case json_dumps resp of Inl e \<Rightarrow> Inl e | Inr s \<Rightarrow> Inr (PBytes s))"

definition extract_bytes :: "client \<Rightarrow> call list \<Rightarrow> pyval \<Rightarrow> (exn + pyval) \<times> call list" where
  "extract_bytes cl tr resp =
     (case resp of
        PBytes b \<Rightarrow> (Inr (PBytes b), tr)
      | PDict kvs \<Rightarrow>
          (case map_of kvs ''data'' of
             Some d \<Rightarrow>
               (case b64decode d of
                  Inr bs \<Rightarrow> (Inr (PBytes bs), tr)
                | Inl e \<Rightarrow> (serialize resp, tr))
           | None \<Rightarrow>
               (case map_of kvs ''file'' of
                  Some (PBytes b) \<Rightarrow> (Inr (PBytes b), tr)
                | _ \<Rightarrow> (serialize resp, tr)))
      | _ \<Rightarrow>
          (case read_of resp of
             Some h \<Rightarrow> invoke cl tr (Read h)
           | None \<Rightarrow>
               (case json_dumps resp of
                  Inl e \<Rightarrow> (Inr (PBytes []), tr)
                | Inr s \<Rightarrow> (Inr (PBytes s), tr))))"

text \<open>
  \<^verbatim>\<open>open(dest_path, "wb")\<close> and \<^verbatim>\<open>f.write(data)\<close> on a file system that maps a path
  to the content of its file. Opening truncates the file; writing anything but bytes
  raises \<^verbatim>\<open>TypeError\<close>. Creating the parent directories and opening the file are taken
  to succeed.
\<close>

definition write_file ::
  "(string \<Rightarrow> string option) \<Rightarrow> string \<Rightarrow> pyval \<Rightarrow> exn option \<times> (string \<Rightarrow> string option)"
where
  "write_file fs dest_path data =
     (case data of
        PBytes b \<Rightarrow> (None, fs(dest_path \<mapsto> b))
      | _ \<Rightarrow>
          (Some (Exn TypeError
             (''a bytes-like object is required, not '' @ [squote] @ type_name data @ [squote])),
           fs(dest_path \<mapsto> [])))"

definition download_attachment ::
  "world \<Rightarrow> call list \<Rightarrow> (string \<Rightarrow> string option) \<Rightarrow> int \<Rightarrow> int \<Rightarrow> int \<Rightarrow> string \<Rightarrow>
   (exn + string) \<times> call list \<times> (string \<Rightarrow> string option)"
where
  "download_attachment w tr fs attachment_id ticket_id article_id dest_path =
     (case init_zammad_client w of
        Inl e \<Rightarrow> (Inl e, tr, fs)
      | Inr cl \<Rightarrow>
          (case try_callers cl tr (download_callers cl attachment_id ticket_id article_id) None of
             ((None, last_error), tr1) \<Rightarrow>
               (Inl (Exn RuntimeError
                  (''No download method returned data. Last error: '' @ show_error last_error)),
                tr1, fs)
           | ((Some resp, last_error), tr1) \<Rightarrow>
               (case extract_bytes cl tr1 resp of
                  (Inl e, tr2) \<Rightarrow> (Inl e, tr2, fs)
                | (Inr data, tr2) \<Rightarrow>
                    (case write_file fs dest_path data of
                       (Some e, fs') \<Rightarrow> (Inl e, tr2, fs')
                     | (None, fs') \<Rightarrow> (Inr dest_path, tr2, fs')))))"

section \<open>Notions the properties are stated with\<close>

text \<open>The items one page contributes: its elements, or the page itself when it cannot be iterated.\<close>

definition page_items :: "pyval \<Rightarrow> pyval list" where
  "page_items page = extend_or_append [] page"

text \<open>
  \<open>paginates cl tr page ps\<close>: starting at \<open>page\<close> with the calls \<open>tr\<close> made so far, the
  backend serves exactly the truthy pages \<open>ps\<close>, each reached by \<^verbatim>\<open>next_page()\<close> of the
  one before, and the \<^verbatim>\<open>next_page()\<close> of the last one returns a falsy result.
\<close>

fun paginates :: "client \<Rightarrow> call list \<Rightarrow> pyval \<Rightarrow> pyval list \<Rightarrow> bool" where
  "paginates cl tr page [] = (\<not> truthy page)"
| "paginates cl tr page (p # ps) =
     (page = p \<and> truthy p \<and>
      (case next_page_of p of
         None \<Rightarrow> False
       | Some h \<Rightarrow>
           (case respond cl tr (NextPage h) of
              Inl e \<Rightarrow> False
            | Inr q \<Rightarrow> paginates cl (tr @ [NextPage h]) q ps)))"

text \<open>The \<^verbatim>\<open>next_page()\<close> calls of a sequence of pages, one for each page.\<close>

definition page_calls :: "pyval list \<Rightarrow> call list" where
  "page_calls ps =
     concat (map (\<lambda>p. case next_page_of p of None \<Rightarrow> [] | Some h \<Rightarrow> [NextPage h]) ps)"

section \<open>Test doubles\<close>

text \<open>A client that has every attribute and answers \<^verbatim>\<open>None\<close> to every call.\<close>

definition null_client :: client where
  "null_client = \<lparr>has_attr = (\<lambda>a. True), respond = (\<lambda>tr c. Inr PNone)\<rparr>"

text \<open>An environment with an empty base URL, and one with trailing slashes and no credentials.\<close>

definition empty_url_world :: world where
  "empty_url_world =
     \<lparr>environ = [''zammad_url'' \<mapsto> []], ZammadAPI = (\<lambda>u n p. Inr null_client)\<rparr>"

definition slash_world :: world where
  "slash_world =
     \<lparr>environ = [''zammad_url'' \<mapsto> ''http://z//''],
      ZammadAPI = (\<lambda>u n p.
        if u = ''http://z/api/v1/'' \<and> n = None \<and> p = None then Inr null_client
        else Inl (Exn OtherError ''unexpected arguments''))\<rparr>"

text \<open>An environment with a base URL, whose constructor returns the given client.\<close>

definition world_of :: "client \<Rightarrow> world" where
  "world_of cl = \<lparr>environ = [''zammad_url'' \<mapsto> ''http://z''], ZammadAPI = (\<lambda>u n p. Inr cl)\<rparr>"

text \<open>An environment without any setting.\<close>

definition unset_world :: world where
  "unset_world = \<lparr>environ = (\<lambda>k. None), ZammadAPI = (\<lambda>u n p. Inr null_client)\<rparr>"

text \<open>
  Three pages: two tickets, then a page that cannot be iterated (it is its own single
  item), then one ticket; the fourth fetch returns \<^verbatim>\<open>None\<close>.
\<close>

definition page3 :: pyval where "page3 = PObj True (Some [PInt 3]) (Some 3) None"
definition page2 :: pyval where "page2 = PObj True None (Some 2) None"
definition page1 :: pyval where "page1 = PObj True (Some [PInt 1, PInt 2]) (Some 1) None"

definition paged_client :: client where
  "paged_client =
     \<lparr>has_attr = (\<lambda>a. True),
      respond = (\<lambda>tr c.
        case c of
          TicketAll \<Rightarrow> Inr page1
        | NextPage h \<Rightarrow> Inr (if h = 1 then page2 else if h = 2 then page3 else PNone)
        | _ \<Rightarrow> Inl (Exn OtherError ''not found''))\<rparr>"

text \<open>
  The test of the loop in \<^verbatim>\<open>set_ticket_priority\<close>:
  \<^verbatim>\<open>str(p.get("name", "")).lower() == str(priority_name).lower()\<close>; an item without a
  \<^verbatim>\<open>get\<close> method matches nothing.
\<close>

definition name_matches :: "pyval \<Rightarrow> string \<Rightarrow> bool" where
  "name_matches p priority_name =
     (case py_get p ''name'' (PStr []) of
        Inl e \<Rightarrow> False
      | Inr nm \<Rightarrow> py_lower (py_str nm) = py_lower priority_name)"

definition is_dict :: "pyval \<Rightarrow> bool" where
  "is_dict v = (case v of PDict kvs \<Rightarrow> True | _ \<Rightarrow> False)"

text \<open>The validation error of an unresolved priority.\<close>

definition could_not_resolve :: exn where
  "could_not_resolve =
     Exn ValueError ''Could not resolve priority id; provide a valid priority_id or priority_name''"

text \<open>
  A client that rejects the keyword form of \<^verbatim>\<open>ticket.update\<close>, echoes the positional
  form, and lists two priorities; a client whose every call raises; a client whose
  priority listing has a second page that cannot be fetched.
\<close>

definition priority_list :: pyval where
  "priority_list =
     PList [PDict [(''id'', PInt 1), (''name'', PStr ''low'')],
            PDict [(''id'', PInt 3), (''name'', PStr ''urgent'')]]"

definition update_client :: client where
  "update_client =
     \<lparr>has_attr = (\<lambda>a. True),
      respond = (\<lambda>tr c.
        case c of
          PriorityAll \<Rightarrow> Inr priority_list
        | TicketUpdateKw i p \<Rightarrow> Inl (Exn TypeError ''update() got an unexpected keyword argument'')
        | TicketUpdatePos i p \<Rightarrow> Inr (PDict [(''id'', PInt i), (''sent'', p)])
        | NextPage h \<Rightarrow> Inr PNone
        | _ \<Rightarrow> Inl (Exn OtherError ''not found''))\<rparr>"

definition offline_client :: client where
  "offline_client =
     \<lparr>has_attr = (\<lambda>a. True), respond = (\<lambda>tr c. Inl (Exn OtherError ''connection refused''))\<rparr>"

definition broken_pager_client :: client where
  "broken_pager_client =
     \<lparr>has_attr = (\<lambda>a. True),
      respond = (\<lambda>tr c.
        case c of
          PriorityAll \<Rightarrow>
            Inr (PObj True (Some [PDict [(''id'', PInt 3), (''name'', PStr ''urgent'')]]) (Some 1) None)
        | _ \<Rightarrow> Inl (Exn OtherError ''connection reset''))\<rparr>"

text \<open>
  A client whose article 7 carries an embedded attachment list while the listing endpoint
  and the legacy fields would give other answers; and a client without the listing
  endpoint whose article has only a legacy field.
\<close>

definition embedded_client :: client where
  "embedded_client =
     \<lparr>has_attr = (\<lambda>a. True),
      respond = (\<lambda>tr c.
        case c of
          ArticleFindKw t a \<Rightarrow>
            Inr (PDict [(''id'', PInt 7),
                        (''attachments'', PList [PDict [(''id'', PInt 1), (''filename'', PStr ''a.png'')]])])
        | AttachmentAllKw t a \<Rightarrow> Inr (PList [PDict [(''id'', PInt 2), (''filename'', PStr ''b.png'')]])
        | ArticleFindPos a \<Rightarrow> Inr (PDict [(''attachment_ids'', PList [PInt 9])])
        | _ \<Rightarrow> Inr PNone)\<rparr>"

definition legacy_client :: client where
  "legacy_client =
     \<lparr>has_attr = (\<lambda>a. a \<noteq> ''ticket_article_attachment''),
      respond = (\<lambda>tr c.
        case c of
          ArticleFindPos a \<Rightarrow>
            Inr (PDict [(''attachment_ids'', PList [PInt 9, PDict [(''id'', PInt 4)]])])
        | _ \<Rightarrow> Inr PNone)\<rparr>"

text \<open>
  What each caller of a list returns or raises, and the trace after it, when the callers
  are run one after the other; whether an outcome is a truthy response; the last
  exception among outcomes.
\<close>

fun outcomes :: "client \<Rightarrow> call list \<Rightarrow> caller list \<Rightarrow> ((exn + pyval) \<times> call list) list" where
  "outcomes cl tr [] = []"
| "outcomes cl tr (c # cs) = run_caller cl tr c # outcomes cl (snd (run_caller cl tr c)) cs"

definition succeeded :: "exn + pyval \<Rightarrow> bool" where
  "succeeded r = (case r of Inl e \<Rightarrow> False | Inr v \<Rightarrow> truthy v)"

fun last_error_of :: "(exn + pyval) list \<Rightarrow> exn option \<Rightarrow> exn option" where
  "last_error_of [] last_error = last_error"
| "last_error_of (Inl e # rs) last_error = last_error_of rs (Some e)"
| "last_error_of (Inr v # rs) last_error = last_error_of rs last_error"

text \<open>The six backend calls of \<^verbatim>\<open>send_message_to_ticket\<close>, in the order of the source.\<close>

definition message_calls :: "int \<Rightarrow> pyval \<Rightarrow> call list" where
  "message_calls ticket_id params =
     [ArticleCreateKw params, ArticleCreatePos params, ArticleCreateIdPos ticket_id params,
      ArticleCreateExpanded params,
      TicketUpdateKw ticket_id (PDict [(''article'', params)]),
      TicketUpdatePos ticket_id (PDict [(''article'', params)])]"

text \<open>
  A client that raises on the first two shapes of \<^verbatim>\<open>ticket_article.create\<close> and
  accepts the third.
\<close>

definition third_shape_client :: client where
  "third_shape_client =
     \<lparr>has_attr = (\<lambda>a. True),
      respond = (\<lambda>tr c.
        case c of
          ArticleCreateKw p \<Rightarrow> Inl (Exn TypeError ''create() got an unexpected keyword argument'')
        | ArticleCreatePos p \<Rightarrow> Inl (Exn OtherError ''422 Unprocessable Entity'')
        | ArticleCreateIdPos i p \<Rightarrow> Inr (PDict [(''id'', PInt 11)])
        | _ \<Rightarrow> Inr PNone)\<rparr>"

text \<open>
  The key an article gets in \<^verbatim>\<open>attachments_map\<close>, \<^verbatim>\<open>art.get("id")\<close>; articles whose
  keys can all be hashed; and the failure of the first way to fetch the articles (the
  fetch raises, or the filter does).
\<close>

definition id_of :: "pyval \<Rightarrow> pyval" where
  "id_of art = (case py_get art ''id'' PNone of Inl e \<Rightarrow> PNone | Inr v \<Rightarrow> v)"

definition scalar_ids :: "pyval list \<Rightarrow> bool" where
  "scalar_ids arts = (\<forall>a \<in> set arts. hashable (id_of a))"

definition primary_failed :: "exn + pyval list \<Rightarrow> int \<Rightarrow> bool" where
  "primary_failed r ticket_id =
     (case r of Inl e \<Rightarrow> True | Inr all_articles \<Rightarrow> isl (filter_by_ticket all_articles ticket_id))"

text \<open>
  A client whose ticket fetch raises and whose article listing raises the first time and
  serves two pages the second time; article 7 carries an embedded attachment list, for
  article 8 no strategy finds anything. And a client whose only article has a list as id.
\<close>

definition art7 :: pyval where "art7 = PDict [(''id'', PInt 7), (''ticket_id'', PInt 5)]"
definition art8 :: pyval where "art8 = PDict [(''id'', PInt 8), (''ticket_id'', PInt 5)]"
definition art9 :: pyval where "art9 = PDict [(''id'', PInt 9), (''ticket_id'', PInt 6)]"

definition flaky_client :: client where
  "flaky_client =
     \<lparr>has_attr = (\<lambda>a. True),
      respond = (\<lambda>tr c.
        case c of
          TicketFind i \<Rightarrow> Inl (Exn OtherError ''ticket not found'')
        | ArticleAll \<Rightarrow>
            if ArticleAll \<in> set tr then Inr (PObj True (Some [art7, art9]) (Some 1) None)
            else Inl (Exn OtherError ''timeout'')
        | NextPage h \<Rightarrow> Inr (if h = 1 then PList [art8] else PNone)
        | ArticleFindKw t a \<Rightarrow>
            if a = PInt 7 then
              Inr (PDict [(''id'', PInt 7),
                          (''attachments'', PList [PDict [(''id'', PInt 1), (''filename'', PStr ''a.png'')]])])
            else Inr (PDict [(''id'', a)])
        | _ \<Rightarrow> Inl (Exn OtherError ''not found''))\<rparr>"

definition bad_id_client :: client where
  "bad_id_client =
     \<lparr>has_attr = (\<lambda>a. True),
      respond = (\<lambda>tr c.
        case c of
          ArticleAll \<Rightarrow> Inr (PList [PDict [(''id'', PList [PInt 7]), (''ticket_id'', PInt 5)]])
        | _ \<Rightarrow> Inr PNone)\<rparr>"

text \<open>A client whose every answer is a truthy page with a \<^verbatim>\<open>next_page\<close>.\<close>

definition endless_client :: client where
  "endless_client =
     \<lparr>has_attr = (\<lambda>a. True),
      respond = (\<lambda>tr c. Inr (PObj True (Some [PInt 1]) (Some 0) None))\<rparr>"

text \<open>A client whose keyword download returns the given response.\<close>

definition download_double :: "pyval \<Rightarrow> client" where
  "download_double resp =
     \<lparr>has_attr = (\<lambda>a. True),
      respond = (\<lambda>tr c.
        case c of
          AttachmentDownloadKw a t b \<Rightarrow> Inr resp
        | _ \<Rightarrow> Inl (Exn OtherError ''not found''))\<rparr>"

text \<open>A text between double quotes.\<close>

definition quoted :: "string \<Rightarrow> string" where
  "quoted s = [dquote] @ s @ [dquote]"

section \<open>Connection factory: properties\<close>

lemma rstrip_slash_split: "\<exists>k. s = rstrip_slash s @ replicate k (CHR ''/'')"
proof -
  let ?P = "\<lambda>c. c = CHR ''/''"
  have "rev s = takeWhile ?P (rev s) @ dropWhile ?P (rev s)"
    by simp
  then have "s = rev (dropWhile ?P (rev s)) @ rev (takeWhile ?P (rev s))"
    by (metis rev_append rev_rev_ident)
  moreover have "takeWhile ?P (rev s) = replicate (length (takeWhile ?P (rev s))) (CHR ''/'')"
    by (rule replicate_length_same [symmetric]) (auto dest: set_takeWhileD)
  ultimately show ?thesis
    unfolding rstrip_slash_def by (metis rev_replicate)
qed

lemma rstrip_slash_last: "rstrip_slash s = [] \<or> last (rstrip_slash s) \<noteq> CHR ''/''"
proof (cases "dropWhile (\<lambda>c. c = CHR ''/'') (rev s)")
  case Nil
  then show ?thesis by (simp add: rstrip_slash_def)
next
  case (Cons x xs)
  then have "x \<noteq> CHR ''/''"
    using hd_dropWhile [of "\<lambda>c. c = CHR ''/''" "rev s"] by auto
  with Cons show ?thesis by (simp add: rstrip_slash_def)
qed

lemma init_world_of: "init_zammad_client (world_of cl) = Inr cl"
  by (simp add: world_of_def init_zammad_client_def)

text \<open>
  C9, as the claim states it, fails: a base URL that is set to the empty string is not
  absent, and \<open>init_zammad_client\<close> raises all the same (\<^verbatim>\<open>if not url_base\<close>).
\<close>

theorem init_zammad_client_counterexample:
  "environ empty_url_world ''zammad_url'' = Some [] \<and>
   init_zammad_client empty_url_world =
     Inl (Exn EnvironmentError ''Environment variable `zammad_url` is not set'')"
  by (simp add: empty_url_world_def init_zammad_client_def)

text \<open>
  C9, amended: \<open>init_zammad_client\<close> raises its configuration error when the base URL is
  absent or empty. Otherwise it returns what the library's constructor returns for the
  base URL without its trailing slashes followed by \<^verbatim>\<open>/api/v1/\<close>, and for the username
  and the password as they are found, absent or not. When the constructor accepts every
  argument, it fails if and only if the base URL is absent or empty.
\<close>

theorem init_zammad_client_spec:
  "(environ w ''zammad_url'' = None \<or> environ w ''zammad_url'' = Some [] \<longrightarrow>
      init_zammad_client w =
        Inl (Exn EnvironmentError ''Environment variable `zammad_url` is not set'')) \<and>
   (environ w ''zammad_url'' = Some u \<and> u \<noteq> [] \<longrightarrow>
      init_zammad_client w =
        ZammadAPI w (rstrip_slash u @ ''/api/v1/'')
          (environ w ''zammad_username'') (environ w ''zammad_password'') \<and>
      (\<exists>k. u = rstrip_slash u @ replicate k (CHR ''/'')) \<and>
      (rstrip_slash u = [] \<or> last (rstrip_slash u) \<noteq> CHR ''/'')) \<and>
   ((\<forall>url n p. \<exists>c. ZammadAPI w url n p = Inr c) \<longrightarrow>
      ((\<exists>e. init_zammad_client w = Inl e) \<longleftrightarrow>
       (environ w ''zammad_url'' = None \<or> environ w ''zammad_url'' = Some [])))"
proof (intro conjI impI)
  assume "environ w ''zammad_url'' = None \<or> environ w ''zammad_url'' = Some []"
  then show "init_zammad_client w =
        Inl (Exn EnvironmentError ''Environment variable `zammad_url` is not set'')"
    by (auto simp: init_zammad_client_def)
next
  assume "environ w ''zammad_url'' = Some u \<and> u \<noteq> []"
  then show "init_zammad_client w =
        ZammadAPI w (rstrip_slash u @ ''/api/v1/'')
          (environ w ''zammad_username'') (environ w ''zammad_password'')"
    by (simp add: init_zammad_client_def)
next
  show "\<exists>k. u = rstrip_slash u @ replicate k (CHR ''/'')"
    by (rule rstrip_slash_split)
next
  show "rstrip_slash u = [] \<or> last (rstrip_slash u) \<noteq> CHR ''/''"
    by (rule rstrip_slash_last)
next
  assume ok: "\<forall>url n p. \<exists>c. ZammadAPI w url n p = Inr c"
  show "(\<exists>e. init_zammad_client w = Inl e) \<longleftrightarrow>
       (environ w ''zammad_url'' = None \<or> environ w ''zammad_url'' = Some [])"
  proof (cases "environ w ''zammad_url''")
    case None
    then show ?thesis by (simp add: init_zammad_client_def)
  next
    case (Some u')
    obtain c where "ZammadAPI w (rstrip_slash u' @ ''/api/v1/'')
          (environ w ''zammad_username'') (environ w ''zammad_password'') = Inr c"
      using ok by blast
    with Some show ?thesis by (simp add: init_zammad_client_def)
  qed
qed

theorem init_zammad_client_spec_witness:
  "environ slash_world ''zammad_url'' = Some ''http://z//'' \<and>
   environ slash_world ''zammad_username'' = None \<and>
   environ slash_world ''zammad_password'' = None \<and>
   init_zammad_client slash_world = Inr null_client \<and>
   init_zammad_client unset_world =
     Inl (Exn EnvironmentError ''Environment variable `zammad_url` is not set'')"
proof -
  have u: "environ slash_world ''zammad_url'' = Some ''http://z//'' \<and> ''http://z//'' \<noteq> []"
    by (simp add: slash_world_def)
  have r: "rstrip_slash ''http://z//'' = ''http://z''"
    by (simp add: rstrip_slash_def)
  from init_zammad_client_spec [of slash_world "''http://z//''"] u
  have "init_zammad_client slash_world =
        ZammadAPI slash_world (rstrip_slash ''http://z//'' @ ''/api/v1/'')
          (environ slash_world ''zammad_username'') (environ slash_world ''zammad_password'')"
    by blast
  then have a: "init_zammad_client slash_world = Inr null_client"
    by (simp add: r slash_world_def)
  have n: "environ unset_world ''zammad_url'' = None"
    by (simp add: unset_world_def)
  from init_zammad_client_spec [of unset_world] n
  have b: "init_zammad_client unset_world =
     Inl (Exn EnvironmentError ''Environment variable `zammad_url` is not set'')"
    by blast
  from a b show ?thesis by (simp add: slash_world_def)
qed

section \<open>Page collector: properties\<close>

lemma extend_or_append_items: "extend_or_append items page = items @ page_items page"
  by (simp add: extend_or_append_def page_items_def split: option.split)

lemma collect_loop_paginates:
  "paginates cl tr p (p # ps) \<Longrightarrow>
   collect_loop cl tr p items =
     Some (Inr (items @ concat (map page_items ps)), tr @ page_calls (p # ps))"
proof (induction ps arbitrary: tr p items)
  case Nil
  then show ?case
    by (subst collect_loop.simps)
       (auto simp: page_calls_def split: option.splits sum.splits)
next
  case (Cons q qs)
  from Cons.prems obtain h where h: "next_page_of p = Some h"
    and r: "respond cl tr (NextPage h) = Inr q"
    and q: "paginates cl (tr @ [NextPage h]) q (q # qs)" and tq: "truthy q"
    by (auto split: option.splits sum.splits)
  have "collect_loop cl (tr @ [NextPage h]) q (extend_or_append items q) =
     Some (Inr (extend_or_append items q @ concat (map page_items qs)),
           (tr @ [NextPage h]) @ page_calls (q # qs))"
    by (rule Cons.IH [OF q])
  with h r tq show ?case
    by (subst collect_loop.simps)
       (simp add: page_calls_def extend_or_append_items)
qed

lemma page_calls_length: "paginates cl tr page ps \<Longrightarrow> length (page_calls ps) = length ps"
  by (induction ps arbitrary: tr page)
     (auto simp: page_calls_def split: option.splits sum.splits)

lemma collect_pages_paginates:
  assumes "paginates cl tr first_page ps"
  shows "collect_pages cl tr first_page =
           Some (Inr (concat (map page_items ps)), tr @ page_calls ps)"
proof (cases ps)
  case Nil
  with assms show ?thesis by (simp add: collect_pages_def page_calls_def)
next
  case (Cons p qs)
  with assms have p: "first_page = p" "truthy p" by auto
  from assms Cons p have "paginates cl tr p (p # qs)" by simp
  from collect_loop_paginates [OF this, of "extend_or_append [] p"] Cons p
  show ?thesis
    by (simp add: collect_pages_def extend_or_append_items)
qed

text \<open>
  C3: when the backend serves the \<open>P\<close> pages \<open>ps\<close> and then a falsy result, the page
  collector returns the items of the pages, in page order and in their order inside each
  page, whether a page is iterated or is a single item. It calls \<^verbatim>\<open>next_page()\<close> once
  for each page and nothing else, so that an operation which fetches the first page and
  collects, such as \<open>get_all_tickets\<close>, makes \<open>P + 1\<close> page fetches.
\<close>

theorem collect_pages_paginated:
  assumes "paginates cl tr first_page ps"
  shows "collect_pages cl tr first_page =
           Some (Inr (concat (map page_items ps)), tr @ page_calls ps) \<and>
         length (page_calls ps) = length ps \<and>
         (init_zammad_client w = Inr cl \<and> invoke cl tr0 TicketAll = (Inr first_page, tr) \<longrightarrow>
            get_all_tickets w tr0 = Some (Inr (concat (map page_items ps)), tr @ page_calls ps) \<and>
            length (tr @ page_calls ps) = length tr0 + (length ps + 1))"
proof (intro conjI impI)
  show c: "collect_pages cl tr first_page =
           Some (Inr (concat (map page_items ps)), tr @ page_calls ps)"
    by (rule collect_pages_paginates [OF assms])
  show l: "length (page_calls ps) = length ps"
    by (rule page_calls_length [OF assms])
  assume a: "init_zammad_client w = Inr cl \<and> invoke cl tr0 TicketAll = (Inr first_page, tr)"
  with c show "get_all_tickets w tr0 =
      Some (Inr (concat (map page_items ps)), tr @ page_calls ps)"
    by (simp add: get_all_tickets_def)
  from a have "tr = tr0 @ [TicketAll]"
    by (auto simp: invoke_def split: if_splits)
  with l show "length (tr @ page_calls ps) = length tr0 + (length ps + 1)"
    by simp
qed

theorem collect_pages_paginated_witness:
  "paginates paged_client [TicketAll] page1 [page1, page2, page3] \<and>
   collect_pages paged_client [TicketAll] page1 =
     Some (Inr [PInt 1, PInt 2, page2, PInt 3],
           [TicketAll, NextPage 1, NextPage 2, NextPage 3]) \<and>
   get_all_tickets (world_of paged_client) [] =
     Some (Inr [PInt 1, PInt 2, page2, PInt 3],
           [TicketAll, NextPage 1, NextPage 2, NextPage 3])"
proof -
  have p: "paginates paged_client [TicketAll] page1 [page1, page2, page3]"
    by (simp add: paged_client_def page1_def page2_def page3_def)
  have i: "init_zammad_client (world_of paged_client) = Inr paged_client \<and>
           invoke paged_client [] TicketAll = (Inr page1, [TicketAll])"
    by (simp add: init_world_of invoke_def paged_client_def)
  have items: "page_items page1 = [PInt 1, PInt 2]" "page_items page2 = [page2]"
    "page_items page3 = [PInt 3]"
    by (simp_all add: page_items_def extend_or_append_def page1_def page2_def page3_def)
  have calls: "page_calls [page1, page2, page3] = [NextPage 1, NextPage 2, NextPage 3]"
    by (simp add: page_calls_def page1_def page2_def page3_def)
  from collect_pages_paginated [OF p, of "world_of paged_client" "[]"] i p
  show ?thesis by (simp add: items calls)
qed

section \<open>Ticket write operations: properties\<close>

lemma invoke_cases:
  "invoke cl tr c = (respond cl tr c, tr @ [c]) \<or>
   (\<exists>m. invoke cl tr c = (Inl (Exn AttributeError m), tr))"
  by (simp add: invoke_def split: option.split)

lemma update_ticket_cases:
  "(\<exists>m. update_ticket cl tr i p = (Inl (Exn AttributeError m), tr)) \<or>
   (\<exists>r. update_ticket cl tr i p = (r, tr @ [TicketUpdateKw i p])) \<or>
   (\<exists>r. update_ticket cl tr i p = (r, tr @ [TicketUpdateKw i p, TicketUpdatePos i p]))"
  by (auto simp: update_ticket_def invoke_def split: sum.splits)

lemma update_ticket_sent:
  "has_attr cl ''ticket'' \<Longrightarrow>
   \<exists>rest. snd (update_ticket cl tr i p) = tr @ TicketUpdateKw i p # rest"
  by (auto simp: update_ticket_def invoke_def split: sum.splits)

lemma update_ticket_not_validation:
  "update_ticket cl tr i p \<noteq> (Inl (Exn ValueError m), tr)"
  using update_ticket_cases [of cl tr i p] by auto

text \<open>
  C8: with a connection, \<open>set_ticket_state\<close> raises its validation error, before any
  call reaches the backend, if and only if neither \<^verbatim>\<open>state\<close> nor \<^verbatim>\<open>state_id\<close> is
  given. With either one it goes on to the update. With both, the parameters of the
  update hold both, and that update is the next call the backend receives.
\<close>

theorem set_ticket_state_validation:
  assumes "init_zammad_client w = Inr cl"
  shows "(set_ticket_state w tr ticket_id state state_id =
            (Inl (Exn ValueError ''Either state or state_id must be provided''), tr)
          \<longleftrightarrow> state = None \<and> state_id = None) \<and>
         set_ticket_state w tr ticket_id (Some s) None =
           update_ticket cl tr ticket_id (PDict [(''state'', PStr s)]) \<and>
         set_ticket_state w tr ticket_id None (Some i) =
           update_ticket cl tr ticket_id (PDict [(''state_id'', PInt i)]) \<and>
         set_ticket_state w tr ticket_id (Some s) (Some i) =
           update_ticket cl tr ticket_id (PDict [(''state_id'', PInt i), (''state'', PStr s)]) \<and>
         (has_attr cl ''ticket'' \<longrightarrow>
            (\<exists>rest. snd (set_ticket_state w tr ticket_id (Some s) (Some i)) =
               tr @ TicketUpdateKw ticket_id (PDict [(''state_id'', PInt i), (''state'', PStr s)])
                    # rest))"
proof (intro conjI impI)
  show "set_ticket_state w tr ticket_id state state_id =
            (Inl (Exn ValueError ''Either state or state_id must be provided''), tr)
          \<longleftrightarrow> state = None \<and> state_id = None"
    using assms
    by (cases state; cases state_id)
       (simp_all add: set_ticket_state_def update_ticket_not_validation)
  show both: "set_ticket_state w tr ticket_id (Some s) (Some i) =
           update_ticket cl tr ticket_id (PDict [(''state_id'', PInt i), (''state'', PStr s)])"
    using assms by (simp add: set_ticket_state_def)
  show "set_ticket_state w tr ticket_id (Some s) None =
           update_ticket cl tr ticket_id (PDict [(''state'', PStr s)])"
    using assms by (simp add: set_ticket_state_def)
  show "set_ticket_state w tr ticket_id None (Some i) =
           update_ticket cl tr ticket_id (PDict [(''state_id'', PInt i)])"
    using assms by (simp add: set_ticket_state_def)
  assume "has_attr cl ''ticket''"
  then show "\<exists>rest. snd (set_ticket_state w tr ticket_id (Some s) (Some i)) =
               tr @ TicketUpdateKw ticket_id (PDict [(''state_id'', PInt i), (''state'', PStr s)])
                    # rest"
    unfolding both by (rule update_ticket_sent)
qed

theorem set_ticket_state_validation_witness:
  "init_zammad_client (world_of update_client) = Inr update_client \<and>
   set_ticket_state (world_of update_client) [] 5 None None =
     (Inl (Exn ValueError ''Either state or state_id must be provided''), []) \<and>
   set_ticket_state (world_of update_client) [] 5 (Some ''open'') (Some 2) =
     (Inr (PDict [(''id'', PInt 5),
                  (''sent'', PDict [(''state_id'', PInt 2), (''state'', PStr ''open'')])]),
      [TicketUpdateKw 5 (PDict [(''state_id'', PInt 2), (''state'', PStr ''open'')]),
       TicketUpdatePos 5 (PDict [(''state_id'', PInt 2), (''state'', PStr ''open'')])])"
proof -
  have i: "init_zammad_client (world_of update_client) = Inr update_client"
    by (rule init_world_of)
  have u: "update_ticket update_client [] 5 (PDict [(''state_id'', PInt 2), (''state'', PStr ''open'')]) =
     (Inr (PDict [(''id'', PInt 5),
                  (''sent'', PDict [(''state_id'', PInt 2), (''state'', PStr ''open'')])]),
      [TicketUpdateKw 5 (PDict [(''state_id'', PInt 2), (''state'', PStr ''open'')]),
       TicketUpdatePos 5 (PDict [(''state_id'', PInt 2), (''state'', PStr ''open'')])])"
    by (simp add: update_ticket_def invoke_def update_client_def)
  from set_ticket_state_validation [OF i, of "[]" 5 None None "''open''" 2]
  show ?thesis by (simp add: i u)
qed

text \<open>
  C10: with a connection and a \<^verbatim>\<open>priority_id\<close>, \<open>set_ticket_priority\<close> is the update
  with the parameters \<^verbatim>\<open>{"priority_id": priority_id}\<close>, whatever \<^verbatim>\<open>priority_name\<close>
  is; the only calls made are the two forms of that update, and the priority listing is
  never called.
\<close>

theorem set_ticket_priority_by_id:
  assumes "init_zammad_client w = Inr cl"
  shows "set_ticket_priority w tr ticket_id (Some pid) priority_name =
           Some (update_ticket cl tr ticket_id (PDict [(''priority_id'', PInt pid)])) \<and>
         (\<exists>r tr'. set_ticket_priority w tr ticket_id (Some pid) priority_name = Some (r, tr') \<and>
            (tr' = tr \<or>
             tr' = tr @ [TicketUpdateKw ticket_id (PDict [(''priority_id'', PInt pid)])] \<or>
             tr' = tr @ [TicketUpdateKw ticket_id (PDict [(''priority_id'', PInt pid)]),
                         TicketUpdatePos ticket_id (PDict [(''priority_id'', PInt pid)])]) \<and>
            PriorityAll \<notin> set (drop (length tr) tr'))"
proof -
  have eq: "set_ticket_priority w tr ticket_id (Some pid) priority_name =
           Some (update_ticket cl tr ticket_id (PDict [(''priority_id'', PInt pid)]))"
    using assms by (simp add: set_ticket_priority_def)
  show ?thesis
    unfolding eq
    using update_ticket_cases [of cl tr ticket_id "PDict [(''priority_id'', PInt pid)]"]
    by auto
qed

theorem set_ticket_priority_by_id_witness:
  "init_zammad_client (world_of update_client) = Inr update_client \<and>
   set_ticket_priority (world_of update_client) [] 9 (Some 2) (Some ''Urgent'') =
     Some (Inr (PDict [(''id'', PInt 9), (''sent'', PDict [(''priority_id'', PInt 2)])]),
           [TicketUpdateKw 9 (PDict [(''priority_id'', PInt 2)]),
            TicketUpdatePos 9 (PDict [(''priority_id'', PInt 2)])])"
proof -
  have i: "init_zammad_client (world_of update_client) = Inr update_client"
    by (rule init_world_of)
  have u: "update_ticket update_client [] 9 (PDict [(''priority_id'', PInt 2)]) =
     (Inr (PDict [(''id'', PInt 9), (''sent'', PDict [(''priority_id'', PInt 2)])]),
           [TicketUpdateKw 9 (PDict [(''priority_id'', PInt 2)]),
            TicketUpdatePos 9 (PDict [(''priority_id'', PInt 2)])])"
    by (simp add: update_ticket_def invoke_def update_client_def)
  from set_ticket_priority_by_id [OF i, of "[]" 9 2 "Some ''Urgent''"]
  show ?thesis by (simp add: i u)
qed

lemma find_priority_no_match:
  "\<forall>p \<in> set ps. \<not> name_matches p nm \<Longrightarrow>
   (case find_priority ps nm of Inl e \<Rightarrow> PNone | Inr v \<Rightarrow> v) = PNone"
proof (induction ps)
  case Nil
  then show ?case by simp
next
  case (Cons p ps)
  then show ?case
    by (cases p) (auto simp: name_matches_def split: sum.splits)
qed

lemma find_priority_first_match:
  assumes "\<forall>p \<in> set pre. is_dict p \<and> \<not> name_matches p nm"
    and "name_matches (PDict kvs) nm"
  shows "find_priority (pre @ PDict kvs # post) nm =
           Inr (case map_of kvs ''id'' of None \<Rightarrow> PNone | Some v \<Rightarrow> v)"
  using assms
proof (induction pre)
  case Nil
  then show ?case by (simp add: name_matches_def)
next
  case (Cons p pre)
  then show ?case
    by (cases p) (auto simp: name_matches_def is_dict_def)
qed

text \<open>
  C7: with a connection and only a name, \<open>set_ticket_priority\<close> lists the priorities
  and takes the id of the first one whose name matches without regard to case. When the
  listing raises, when fetching a later page raises, or when no listed priority matches,
  it raises the validation error "could not resolve". In every case the outcome is the
  validation error or the outcome of the update (or the listing never ends): an exception
  of the listing is never the result.
\<close>

theorem set_ticket_priority_by_name:
  assumes init: "init_zammad_client w = Inr cl"
  shows "(\<forall>e tr1. invoke cl tr PriorityAll = (Inl e, tr1) \<longrightarrow>
            set_ticket_priority w tr ticket_id None (Some nm) = Some (Inl could_not_resolve, tr1)) \<and>
         (\<forall>page tr1 e tr2.
            invoke cl tr PriorityAll = (Inr page, tr1) \<and>
            collect_pages cl tr1 page = Some (Inl e, tr2) \<longrightarrow>
            set_ticket_priority w tr ticket_id None (Some nm) = Some (Inl could_not_resolve, tr2)) \<and>
         (\<forall>page tr1 ps tr2.
            invoke cl tr PriorityAll = (Inr page, tr1) \<and>
            collect_pages cl tr1 page = Some (Inr ps, tr2) \<and>
            (\<forall>p \<in> set ps. \<not> name_matches p nm) \<longrightarrow>
            set_ticket_priority w tr ticket_id None (Some nm) = Some (Inl could_not_resolve, tr2)) \<and>
         (\<forall>page tr1 pre kvs post tr2 v.
            invoke cl tr PriorityAll = (Inr page, tr1) \<and>
            collect_pages cl tr1 page = Some (Inr (pre @ PDict kvs # post), tr2) \<and>
            (\<forall>p \<in> set pre. is_dict p \<and> \<not> name_matches p nm) \<and>
            name_matches (PDict kvs) nm \<and> map_of kvs ''id'' = Some v \<and> v \<noteq> PNone \<longrightarrow>
            set_ticket_priority w tr ticket_id None (Some nm) =
              Some (update_ticket cl tr2 ticket_id (PDict [(''priority_id'', v)]))) \<and>
         (set_ticket_priority w tr ticket_id None (Some nm) = None \<or>
          (\<exists>tr'. set_ticket_priority w tr ticket_id None (Some nm) =
                    Some (Inl could_not_resolve, tr')) \<or>
          (\<exists>tr' v. v \<noteq> PNone \<and>
             set_ticket_priority w tr ticket_id None (Some nm) =
               Some (update_ticket cl tr' ticket_id (PDict [(''priority_id'', v)]))))"
proof (intro conjI allI impI)
  fix e tr1
  assume "invoke cl tr PriorityAll = (Inl e, tr1)"
  then show "set_ticket_priority w tr ticket_id None (Some nm) = Some (Inl could_not_resolve, tr1)"
    using init
    by (simp add: set_ticket_priority_def resolve_priority_def could_not_resolve_def)
next
  fix page tr1 e tr2
  assume "invoke cl tr PriorityAll = (Inr page, tr1) \<and>
          collect_pages cl tr1 page = Some (Inl e, tr2)"
  then show "set_ticket_priority w tr ticket_id None (Some nm) = Some (Inl could_not_resolve, tr2)"
    using init
    by (simp add: set_ticket_priority_def resolve_priority_def could_not_resolve_def)
next
  fix page tr1 ps tr2
  assume a: "invoke cl tr PriorityAll = (Inr page, tr1) \<and>
          collect_pages cl tr1 page = Some (Inr ps, tr2) \<and>
          (\<forall>p \<in> set ps. \<not> name_matches p nm)"
  then have "(case find_priority ps nm of Inl e \<Rightarrow> PNone | Inr v \<Rightarrow> v) = PNone"
    by (simp add: find_priority_no_match)
  with a show "set_ticket_priority w tr ticket_id None (Some nm) = Some (Inl could_not_resolve, tr2)"
    using init
    by (simp add: set_ticket_priority_def resolve_priority_def could_not_resolve_def)
next
  fix page tr1 pre kvs post tr2 v
  assume a: "invoke cl tr PriorityAll = (Inr page, tr1) \<and>
            collect_pages cl tr1 page = Some (Inr (pre @ PDict kvs # post), tr2) \<and>
            (\<forall>p \<in> set pre. is_dict p \<and> \<not> name_matches p nm) \<and>
            name_matches (PDict kvs) nm \<and> map_of kvs ''id'' = Some v \<and> v \<noteq> PNone"
  then have "find_priority (pre @ PDict kvs # post) nm = Inr v"
    by (simp add: find_priority_first_match)
  with a show "set_ticket_priority w tr ticket_id None (Some nm) =
              Some (update_ticket cl tr2 ticket_id (PDict [(''priority_id'', v)]))"
    using init
    by (simp add: set_ticket_priority_def resolve_priority_def)
next
  show "set_ticket_priority w tr ticket_id None (Some nm) = None \<or>
          (\<exists>tr'. set_ticket_priority w tr ticket_id None (Some nm) =
                    Some (Inl could_not_resolve, tr')) \<or>
          (\<exists>tr' v. v \<noteq> PNone \<and>
             set_ticket_priority w tr ticket_id None (Some nm) =
               Some (update_ticket cl tr' ticket_id (PDict [(''priority_id'', v)])))"
  proof (cases "resolve_priority cl tr nm")
    case None
    then show ?thesis using init by (simp add: set_ticket_priority_def)
  next
    case (Some r)
    obtain v tr' where r: "r = (v, tr')" by (cases r)
    show ?thesis
    proof (cases "v = PNone")
      case True
      with Some r show ?thesis
        using init by (simp add: set_ticket_priority_def could_not_resolve_def)
    next
      case False
      with Some r have "set_ticket_priority w tr ticket_id None (Some nm) =
               Some (update_ticket cl tr' ticket_id (PDict [(''priority_id'', v)]))"
        using init by (simp add: set_ticket_priority_def)
      with False show ?thesis by blast
    qed
  qed
qed

theorem set_ticket_priority_by_name_witness:
  "init_zammad_client (world_of update_client) = Inr update_client \<and>
   set_ticket_priority (world_of update_client) [] 9 None (Some ''Urgent'') =
     Some (Inr (PDict [(''id'', PInt 9), (''sent'', PDict [(''priority_id'', PInt 3)])]),
           [PriorityAll, TicketUpdateKw 9 (PDict [(''priority_id'', PInt 3)]),
            TicketUpdatePos 9 (PDict [(''priority_id'', PInt 3)])]) \<and>
   set_ticket_priority (world_of update_client) [] 9 None (Some ''critical'') =
     Some (Inl could_not_resolve, [PriorityAll]) \<and>
   set_ticket_priority (world_of offline_client) [] 9 None (Some ''Urgent'') =
     Some (Inl could_not_resolve, [PriorityAll]) \<and>
   set_ticket_priority (world_of broken_pager_client) [] 9 None (Some ''Urgent'') =
     Some (Inl could_not_resolve, [PriorityAll, NextPage 1])"
proof -
  have k: "init_zammad_client (world_of broken_pager_client) = Inr broken_pager_client"
    by (rule init_world_of)
  have inv4: "invoke broken_pager_client [] PriorityAll =
     (Inr (PObj True (Some [PDict [(''id'', PInt 3), (''name'', PStr ''urgent'')]]) (Some 1) None),
      [PriorityAll])"
    by (simp add: invoke_def broken_pager_client_def)
  have col4: "collect_pages broken_pager_client [PriorityAll]
      (PObj True (Some [PDict [(''id'', PInt 3), (''name'', PStr ''urgent'')]]) (Some 1) None) =
     Some (Inl (Exn OtherError ''connection reset''), [PriorityAll, NextPage 1])"
    by (simp add: collect_pages_def extend_or_append_def collect_loop.simps
          broken_pager_client_def)
  from set_ticket_priority_by_name [OF k, of "[]" 9 "''Urgent''"] inv4 col4
  have d: "set_ticket_priority (world_of broken_pager_client) [] 9 None (Some ''Urgent'') =
     Some (Inl could_not_resolve, [PriorityAll, NextPage 1])"
    by blast
  have i: "init_zammad_client (world_of update_client) = Inr update_client"
    by (rule init_world_of)
  have j: "init_zammad_client (world_of offline_client) = Inr offline_client"
    by (rule init_world_of)
  have inv: "invoke update_client [] PriorityAll = (Inr priority_list, [PriorityAll])"
    by (simp add: invoke_def update_client_def)
  have col: "collect_pages update_client [PriorityAll] priority_list =
     Some (Inr ([] @ PDict [(''id'', PInt 1), (''name'', PStr ''low'')] #
                 [PDict [(''id'', PInt 3), (''name'', PStr ''urgent'')]]), [PriorityAll])"
    by (simp add: collect_pages_def priority_list_def extend_or_append_def collect_loop.simps)
  have low: "\<not> name_matches (PDict [(''id'', PInt 1), (''name'', PStr ''low'')]) ''Urgent''"
    by (simp add: name_matches_def py_str_def py_lower_def)
  have urgent: "name_matches (PDict [(''id'', PInt 3), (''name'', PStr ''urgent'')]) ''Urgent''"
    by code_simp
  have nolow: "\<not> name_matches (PDict [(''id'', PInt 1), (''name'', PStr ''low'')]) ''critical''"
    by (simp add: name_matches_def py_str_def py_lower_def)
  have nourgent: "\<not> name_matches (PDict [(''id'', PInt 3), (''name'', PStr ''urgent'')]) ''critical''"
    by (simp add: name_matches_def py_str_def py_lower_def)
  have u: "update_ticket update_client [PriorityAll] 9 (PDict [(''priority_id'', PInt 3)]) =
     (Inr (PDict [(''id'', PInt 9), (''sent'', PDict [(''priority_id'', PInt 3)])]),
           [PriorityAll, TicketUpdateKw 9 (PDict [(''priority_id'', PInt 3)]),
            TicketUpdatePos 9 (PDict [(''priority_id'', PInt 3)])])"
    by (simp add: update_ticket_def invoke_def update_client_def)
  have off: "invoke offline_client [] PriorityAll =
               (Inl (Exn OtherError ''connection refused''), [PriorityAll])"
    by (simp add: invoke_def offline_client_def)
  note t = set_ticket_priority_by_name [OF i, of "[]" 9 "''Urgent''"]
  note t2 = set_ticket_priority_by_name [OF i, of "[]" 9 "''critical''"]
  note t3 = set_ticket_priority_by_name [OF j, of "[]" 9 "''Urgent''"]
  from t have "\<forall>page tr1 pre kvs post tr2 v.
            invoke update_client [] PriorityAll = (Inr page, tr1) \<and>
            collect_pages update_client tr1 page = Some (Inr (pre @ PDict kvs # post), tr2) \<and>
            (\<forall>p \<in> set pre. is_dict p \<and> \<not> name_matches p ''Urgent'') \<and>
            name_matches (PDict kvs) ''Urgent'' \<and> map_of kvs ''id'' = Some v \<and> v \<noteq> PNone \<longrightarrow>
            set_ticket_priority (world_of update_client) [] 9 None (Some ''Urgent'') =
              Some (update_ticket update_client tr2 9 (PDict [(''priority_id'', v)]))"
    by blast
  from this [rule_format, of priority_list "[PriorityAll]"
      "[PDict [(''id'', PInt 1), (''name'', PStr ''low'')]]" "[(''id'', PInt 3), (''name'', PStr ''urgent'')]"
      "[]" "[PriorityAll]" "PInt 3"] inv col low urgent
  have a: "set_ticket_priority (world_of update_client) [] 9 None (Some ''Urgent'') =
              Some (update_ticket update_client [PriorityAll] 9 (PDict [(''priority_id'', PInt 3)]))"
    by (simp add: is_dict_def)
  from t2 have "\<forall>page tr1 ps tr2.
            invoke update_client [] PriorityAll = (Inr page, tr1) \<and>
            collect_pages update_client tr1 page = Some (Inr ps, tr2) \<and>
            (\<forall>p \<in> set ps. \<not> name_matches p ''critical'') \<longrightarrow>
            set_ticket_priority (world_of update_client) [] 9 None (Some ''critical'') =
              Some (Inl could_not_resolve, tr2)"
    by blast
  from this [rule_format, of priority_list "[PriorityAll]" _ "[PriorityAll]"] inv col nolow nourgent
  have b: "set_ticket_priority (world_of update_client) [] 9 None (Some ''critical'') =
              Some (Inl could_not_resolve, [PriorityAll])"
    by simp
  from t3 off
  have c: "set_ticket_priority (world_of offline_client) [] 9 None (Some ''Urgent'') =
              Some (Inl could_not_resolve, [PriorityAll])"
    by blast
  from a b c d i u show ?thesis by simp
qed

section \<open>Attachment discovery: properties\<close>

text \<open>
  C4: with a connection, when the article fetched by ticket and article id is a
  dictionary with a truthy \<^verbatim>\<open>attachments\<close> field, \<open>list_article_attachments\<close>
  returns that field as it is, and the fetch of the article is the only call it makes:
  neither the listing endpoint nor the fetch by id alone is called.
\<close>

theorem list_article_attachments_embedded:
  assumes "init_zammad_client w = Inr cl"
    and "has_attr cl ''ticket_article''"
    and "respond cl tr (ArticleFindKw ticket_id article_id) = Inr (PDict kvs)"
    and "map_of kvs ''attachments'' = Some att"
    and "truthy att"
  shows "list_article_attachments w tr ticket_id article_id =
           Some (Inr att, tr @ [ArticleFindKw ticket_id article_id])"
proof -
  from assms(4) have "kvs \<noteq> []" by auto
  with assms show ?thesis
    by (simp add: list_article_attachments_def embedded_attachments_def invoke_def)
qed

theorem list_article_attachments_embedded_witness:
  "list_article_attachments (world_of embedded_client) [] 5 (PInt 7) =
     Some (Inr (PList [PDict [(''id'', PInt 1), (''filename'', PStr ''a.png'')]]),
           [ArticleFindKw 5 (PInt 7)]) \<and>
   respond embedded_client [ArticleFindKw 5 (PInt 7)] (AttachmentAllKw 5 (PInt 7)) =
     Inr (PList [PDict [(''id'', PInt 2), (''filename'', PStr ''b.png'')]])"
proof -
  have i: "init_zammad_client (world_of embedded_client) = Inr embedded_client"
    by (rule init_world_of)
  have h: "has_attr embedded_client ''ticket_article''"
    by (simp add: embedded_client_def)
  have r: "respond embedded_client [] (ArticleFindKw 5 (PInt 7)) =
     Inr (PDict [(''id'', PInt 7),
                 (''attachments'', PList [PDict [(''id'', PInt 1), (''filename'', PStr ''a.png'')]])])"
    by (simp add: embedded_client_def)
  have m: "map_of [(''id'', PInt 7),
                 (''attachments'', PList [PDict [(''id'', PInt 1), (''filename'', PStr ''a.png'')]])]
             ''attachments'' = Some (PList [PDict [(''id'', PInt 1), (''filename'', PStr ''a.png'')]])"
    by simp
  have t: "truthy (PList [PDict [(''id'', PInt 1), (''filename'', PStr ''a.png'')]])"
    by simp
  from list_article_attachments_embedded [OF i h r m t]
  show ?thesis by (simp add: embedded_client_def)
qed


lemma listed_attachments_total:
  assumes tot: "\<forall>tr1 page. collect_pages cl tr1 page \<noteq> None"
  shows "\<exists>r. listed_attachments cl tr i a = Some r"
proof (cases "has_attr cl ''ticket_article_attachment''")
  case False
  then show ?thesis by (simp add: listed_attachments_def)
next
  case True
  obtain r t where p: "attachment_page cl tr i a = (r, t)"
    by (cases "attachment_page cl tr i a")
  show ?thesis
  proof (cases r)
    case (Inl e)
    with True p show ?thesis by (simp add: listed_attachments_def)
  next
    case (Inr page)
    show ?thesis
    proof (cases "truthy page")
      case False
      with True p Inr show ?thesis by (simp add: listed_attachments_def)
    next
      case tp: True
      from tot have "collect_pages cl t page \<noteq> None" by blast
      then obtain x t' where c: "collect_pages cl t page = Some (x, t')"
        by (cases "collect_pages cl t page") auto
      with True p Inr tp show ?thesis
        by (cases x) (simp_all add: listed_attachments_def)
    qed
  qed
qed

text \<open>
  C5, as the claim states it, fails: \<open>init_zammad_client\<close> is called inside the operation
  and outside every \<^verbatim>\<open>try\<close>, so without a base URL the operation raises.
\<close>

theorem list_article_attachments_counterexample:
  "list_article_attachments unset_world [] 5 (PInt 7) =
     Some (Inl (Exn EnvironmentError ''Environment variable `zammad_url` is not set''), [])"
  by (simp add: list_article_attachments_def init_zammad_client_def unset_world_def)

text \<open>
  C5, amended: once the connection is made, \<open>list_article_attachments\<close> never raises,
  whatever the backend calls do. It returns whenever collecting pages ends; when the three
  strategies yield nothing it returns the empty list, and so it does when every backend
  call raises.
\<close>

theorem list_article_attachments_total:
  assumes init: "init_zammad_client w = Inr cl"
  shows "(\<forall>e tr'. list_article_attachments w tr ticket_id article_id \<noteq> Some (Inl e, tr')) \<and>
         ((\<forall>tr1 page. collect_pages cl tr1 page \<noteq> None) \<longrightarrow>
            (\<exists>v tr'. list_article_attachments w tr ticket_id article_id = Some (Inr v, tr'))) \<and>
         (\<forall>tr1 tr2 tr3.
            embedded_attachments cl tr ticket_id article_id = (None, tr1) \<and>
            listed_attachments cl tr1 ticket_id article_id = Some (None, tr2) \<and>
            legacy_attachments cl tr2 article_id = (None, tr3) \<longrightarrow>
            list_article_attachments w tr ticket_id article_id = Some (Inr (PList []), tr3)) \<and>
         ((\<forall>tr1 c. \<exists>e. respond cl tr1 c = Inl e) \<longrightarrow>
            (\<exists>tr'. list_article_attachments w tr ticket_id article_id = Some (Inr (PList []), tr')))"
proof (intro conjI allI impI)
  fix e tr'
  show "list_article_attachments w tr ticket_id article_id \<noteq> Some (Inl e, tr')"
    using init
    by (auto simp: list_article_attachments_def split: prod.splits option.splits)
next
  assume tot: "\<forall>tr1 page. collect_pages cl tr1 page \<noteq> None"
  obtain r1 tr1 where e: "embedded_attachments cl tr ticket_id article_id = (r1, tr1)"
    by (cases "embedded_attachments cl tr ticket_id article_id")
  have "\<exists>r. listed_attachments cl tr1 ticket_id article_id = Some r"
    by (rule listed_attachments_total [OF tot])
  then obtain r2 tr2 where l: "listed_attachments cl tr1 ticket_id article_id = Some (r2, tr2)"
    by auto
  obtain r3 tr3 where g: "legacy_attachments cl tr2 article_id = (r3, tr3)"
    by (cases "legacy_attachments cl tr2 article_id")
  from init e l g
  show "\<exists>v tr'. list_article_attachments w tr ticket_id article_id = Some (Inr v, tr')"
    by (cases r1; cases r2; cases r3) (simp_all add: list_article_attachments_def)
next
  fix tr1 tr2 tr3
  assume "embedded_attachments cl tr ticket_id article_id = (None, tr1) \<and>
            listed_attachments cl tr1 ticket_id article_id = Some (None, tr2) \<and>
            legacy_attachments cl tr2 article_id = (None, tr3)"
  with init show "list_article_attachments w tr ticket_id article_id = Some (Inr (PList []), tr3)"
    by (simp add: list_article_attachments_def)
next
  assume fail: "\<forall>tr1 c. \<exists>e. respond cl tr1 c = Inl e"
  have inv: "\<exists>e tr'. invoke cl tr1 c = (Inl e, tr')" for tr1 c
    using fail invoke_cases [of cl tr1 c] by metis
  obtain tr1 where e: "embedded_attachments cl tr ticket_id article_id = (None, tr1)"
    using inv [of tr "ArticleFindKw ticket_id article_id"]
    by (auto simp: embedded_attachments_def)
  have "\<exists>tr2. listed_attachments cl tr1 ticket_id article_id = Some (None, tr2)"
  proof (cases "has_attr cl ''ticket_article_attachment''")
    case False
    then show ?thesis by (simp add: listed_attachments_def)
  next
    case True
    obtain e1 t1 where k: "invoke cl tr1 (AttachmentAllKw ticket_id article_id) = (Inl e1, t1)"
      using inv by blast
    obtain e2 t2 where p: "invoke cl t1 (AttachmentAllPos ticket_id article_id) = (Inl e2, t2)"
      using inv by blast
    from True k p show ?thesis by (simp add: listed_attachments_def attachment_page_def)
  qed
  then obtain tr2 where l: "listed_attachments cl tr1 ticket_id article_id = Some (None, tr2)"
    by blast
  obtain tr3 where g: "legacy_attachments cl tr2 article_id = (None, tr3)"
    using inv [of tr2 "ArticleFindPos article_id"]
    by (auto simp: legacy_attachments_def)
  from init e l g
  show "\<exists>tr'. list_article_attachments w tr ticket_id article_id = Some (Inr (PList []), tr')"
    by (simp add: list_article_attachments_def)
qed

theorem list_article_attachments_total_witness:
  "init_zammad_client (world_of offline_client) = Inr offline_client \<and>
   list_article_attachments (world_of offline_client) [] 5 (PInt 7) =
     Some (Inr (PList []),
           [ArticleFindKw 5 (PInt 7), AttachmentAllKw 5 (PInt 7), ArticleFindPos (PInt 7)]) \<and>
   list_article_attachments (world_of legacy_client) [] 5 (PInt 7) =
     Some (Inr (PList [PDict [(''id'', PInt 9), (''filename'', PStr ''attachment_9'')],
                       PDict [(''id'', PInt 4)]]),
           [ArticleFindKw 5 (PInt 7), ArticleFindPos (PInt 7)])"
proof -
  have i: "init_zammad_client (world_of offline_client) = Inr offline_client"
    by (rule init_world_of)
  have j: "init_zammad_client (world_of legacy_client) = Inr legacy_client"
    by (rule init_world_of)
  have e: "embedded_attachments offline_client [] 5 (PInt 7) = (None, [ArticleFindKw 5 (PInt 7)])"
    by (simp add: embedded_attachments_def invoke_def offline_client_def)
  have l: "listed_attachments offline_client [ArticleFindKw 5 (PInt 7)] 5 (PInt 7) =
             Some (None, [ArticleFindKw 5 (PInt 7), AttachmentAllKw 5 (PInt 7)])"
    by (simp add: listed_attachments_def attachment_page_def invoke_def offline_client_def)
  have g: "legacy_attachments offline_client [ArticleFindKw 5 (PInt 7), AttachmentAllKw 5 (PInt 7)]
             (PInt 7) =
           (None, [ArticleFindKw 5 (PInt 7), AttachmentAllKw 5 (PInt 7), ArticleFindPos (PInt 7)])"
    by (simp add: legacy_attachments_def invoke_def offline_client_def)
  from list_article_attachments_total [OF i, of "[]" 5 "PInt 7"] e l g
  have a: "list_article_attachments (world_of offline_client) [] 5 (PInt 7) =
     Some (Inr (PList []),
           [ArticleFindKw 5 (PInt 7), AttachmentAllKw 5 (PInt 7), ArticleFindPos (PInt 7)])"
    by blast
  have tot: "\<forall>tr1 page. collect_pages legacy_client tr1 page \<noteq> None"
    by (simp add: collect_pages_def collect_loop.simps legacy_client_def split: option.split)
  from list_article_attachments_total [OF j, of "[]" 5 "PInt 7"] tot
  obtain v tr' where "list_article_attachments (world_of legacy_client) [] 5 (PInt 7) = Some (Inr v, tr')"
    by blast
  moreover have "list_article_attachments (world_of legacy_client) [] 5 (PInt 7) =
     Some (Inr (PList [PDict [(''id'', PInt 9), (''filename'', PStr ''attachment_9'')],
                       PDict [(''id'', PInt 4)]]),
           [ArticleFindKw 5 (PInt 7), ArticleFindPos (PInt 7)])"
    by code_simp
  ultimately show ?thesis using a i by simp
qed

section \<open>Call-shape probing: properties\<close>

lemma outcomes_length: "length (outcomes cl tr cs) = length cs"
  by (induction cs arbitrary: tr) simp_all

lemma try_callers_first:
  "i < length cs \<Longrightarrow>
   \<forall>j<i. \<not> succeeded (fst (outcomes cl tr cs ! j)) \<Longrightarrow>
   fst (outcomes cl tr cs ! i) = Inr resp \<Longrightarrow> truthy resp \<Longrightarrow>
   \<exists>le. try_callers cl tr cs last_error = ((Some resp, le), snd (outcomes cl tr cs ! i))"
proof (induction cs arbitrary: tr last_error i)
  case Nil
  then show ?case by simp
next
  case (Cons c cs)
  obtain r tr1 where rc: "run_caller cl tr c = (r, tr1)"
    by (cases "run_caller cl tr c")
  show ?case
  proof (cases i)
    case 0
    with Cons.prems rc show ?thesis by simp
  next
    case (Suc k)
    with Cons.prems have k: "k < length cs" by simp
    from Cons.prems Suc rc have fail: "\<not> succeeded r" by fastforce
    have prev: "\<forall>j<k. \<not> succeeded (fst (outcomes cl tr1 cs ! j))"
    proof (intro allI impI)
      fix j assume "j < k"
      then have "Suc j < i" using Suc by simp
      with Cons.prems(2) have "\<not> succeeded (fst (outcomes cl tr (c # cs) ! Suc j))" by blast
      with rc show "\<not> succeeded (fst (outcomes cl tr1 cs ! j))" by simp
    qed
    from Cons.prems Suc rc have here: "fst (outcomes cl tr1 cs ! k) = Inr resp" by simp
    have ih: "\<exists>le. try_callers cl tr1 cs le' = ((Some resp, le), snd (outcomes cl tr1 cs ! k))"
      for le'
      by (rule Cons.IH [OF k prev here Cons.prems(4)])
    show ?thesis
    proof (cases r)
      case (Inl e)
      with rc Suc ih [of "Some e"] show ?thesis by simp
    next
      case (Inr v)
      with fail have "\<not> truthy v" by (simp add: succeeded_def)
      with Inr rc Suc ih [of last_error] show ?thesis by simp
    qed
  qed
qed

lemma try_callers_none:
  "\<forall>j<length cs. \<not> succeeded (fst (outcomes cl tr cs ! j)) \<Longrightarrow>
   try_callers cl tr cs last_error =
     ((None, last_error_of (map fst (outcomes cl tr cs)) last_error),
      last (tr # map snd (outcomes cl tr cs)))"
proof (induction cs arbitrary: tr last_error)
  case Nil
  then show ?case by simp
next
  case (Cons c cs)
  obtain r tr1 where rc: "run_caller cl tr c = (r, tr1)"
    by (cases "run_caller cl tr c")
  from Cons.prems rc have fail: "\<not> succeeded r" by fastforce
  have rest: "\<forall>j<length cs. \<not> succeeded (fst (outcomes cl tr1 cs ! j))"
  proof (intro allI impI)
    fix j assume "j < length cs"
    then have "Suc j < length (c # cs)" by simp
    with Cons.prems have "\<not> succeeded (fst (outcomes cl tr (c # cs) ! Suc j))" by blast
    with rc show "\<not> succeeded (fst (outcomes cl tr1 cs ! j))" by simp
  qed
  note ih = Cons.IH [OF rest]
  show ?case
  proof (cases r)
    case (Inl e)
    with rc ih [of "Some e"] show ?thesis by simp
  next
    case (Inr v)
    with fail have "\<not> truthy v" by (simp add: succeeded_def)
    with Inr rc ih [of last_error] show ?thesis by simp
  qed
qed

lemma message_callers_traces:
  assumes "has_attr cl ''ticket_article''" and "has_attr cl ''ticket''"
  shows "map snd (outcomes cl tr (message_callers cl ticket_id params)) =
           map (\<lambda>i. tr @ take (Suc i) (message_calls ticket_id params)) [0..<6]"
proof -
  have six: "[0..<6] = [0, 1, 2, 3, 4, 5]"
    by (simp add: upt_rec)
  show ?thesis
    using assms
    by (simp add: six message_callers_def message_calls_def invoke_def)
qed

text \<open>
  C2: with a connection, \<open>send_message_to_ticket\<close> has at most six callers; on a client
  with \<^verbatim>\<open>ticket_article\<close> they are the keyword form, the positional dictionary, the
  ticket id with the dictionary, the expanded keywords, and the two forms of
  \<^verbatim>\<open>ticket.update\<close> with the nested article, in this order. The result is the outcome
  of the first caller that returns a truthy response without raising, and the trace ends
  with that attempt (after \<open>i + 1\<close> calls when the \<open>i\<close>-th caller, counted from 0, is
  the first to succeed). When no caller succeeds, the result is the \<^verbatim>\<open>RuntimeError\<close>
  whose message carries the last exception raised.
\<close>

theorem send_message_to_ticket_probing:
  assumes init: "init_zammad_client w = Inr cl"
    and params: "params = PDict (message_params ticket_id message subject author_id internal
                                   article_type additional_params)"
    and cs: "cs = message_callers cl ticket_id params"
    and outs: "outs = outcomes cl tr cs"
    and result: "result = send_message_to_ticket w tr ticket_id message subject author_id internal
                            article_type additional_params"
  shows "(has_attr cl ''ticket_article'' \<longrightarrow>
            cs = [Direct (ArticleCreateKw params), Direct (ArticleCreatePos params),
                  Direct (ArticleCreateIdPos ticket_id params),
                  Direct (ArticleCreateExpanded params),
                  ViaTicket (TicketUpdateKw ticket_id (PDict [(''article'', params)])),
                  ViaTicket (TicketUpdatePos ticket_id (PDict [(''article'', params)]))]) \<and>
         length cs \<le> 6 \<and>
         (\<forall>i. i < length cs \<and> (\<forall>j<i. \<not> succeeded (fst (outs ! j))) \<and>
               succeeded (fst (outs ! i)) \<longrightarrow> result = outs ! i) \<and>
         ((\<forall>j<length cs. \<not> succeeded (fst (outs ! j))) \<longrightarrow>
            result =
              (Inl (Exn RuntimeError
                 (''Could not create ticket article. Last error: '' @
                  show_error (last_error_of (map fst outs) None))),
               last (tr # map snd outs))) \<and>
         (has_attr cl ''ticket_article'' \<and> has_attr cl ''ticket'' \<longrightarrow>
            (\<forall>i<6. snd (outs ! i) = tr @ take (Suc i) (message_calls ticket_id params)))"
proof (intro conjI allI impI)
  assume "has_attr cl ''ticket_article''"
  then show "cs = [Direct (ArticleCreateKw params), Direct (ArticleCreatePos params),
                  Direct (ArticleCreateIdPos ticket_id params),
                  Direct (ArticleCreateExpanded params),
                  ViaTicket (TicketUpdateKw ticket_id (PDict [(''article'', params)])),
                  ViaTicket (TicketUpdatePos ticket_id (PDict [(''article'', params)]))]"
    by (simp add: cs message_callers_def)
next
  show "length cs \<le> 6" by (simp add: cs message_callers_def)
next
  fix i
  assume a: "i < length cs \<and> (\<forall>j<i. \<not> succeeded (fst (outs ! j))) \<and> succeeded (fst (outs ! i))"
  then obtain resp where r: "fst (outs ! i) = Inr resp" and t: "truthy resp"
    by (cases "fst (outs ! i)") (auto simp: succeeded_def)
  from a have i: "i < length cs" and p: "\<forall>j<i. \<not> succeeded (fst (outcomes cl tr cs ! j))"
    by (simp_all add: outs)
  from try_callers_first [OF i p r [unfolded outs] t, of None]
  obtain le where "try_callers cl tr cs None = ((Some resp, le), snd (outcomes cl tr cs ! i))"
    by blast
  with init have "result = (Inr resp, snd (outs ! i))"
    by (simp add: result send_message_to_ticket_def cs [symmetric] params [symmetric] outs)
  with r show "result = outs ! i"
    by (metis prod.collapse)
next
  assume "\<forall>j<length cs. \<not> succeeded (fst (outs ! j))"
  then have "\<forall>j<length cs. \<not> succeeded (fst (outcomes cl tr cs ! j))"
    by (simp add: outs)
  from try_callers_none [OF this, of None] init
  show "result =
              (Inl (Exn RuntimeError
                 (''Could not create ticket article. Last error: '' @
                  show_error (last_error_of (map fst outs) None))),
               last (tr # map snd outs))"
    by (simp add: result send_message_to_ticket_def cs [symmetric] params [symmetric] outs)
next
  fix i :: nat
  assume h: "has_attr cl ''ticket_article'' \<and> has_attr cl ''ticket''" and i: "i < 6"
  then have m: "map snd outs = map (\<lambda>i. tr @ take (Suc i) (message_calls ticket_id params)) [0..<6]"
    by (simp add: outs cs message_callers_traces)
  then have "length outs = 6"
    by (metis length_map length_upt diff_zero)
  with i have "snd (outs ! i) = map snd outs ! i" by simp
  also have "\<dots> = tr @ take (Suc i) (message_calls ticket_id params)"
    using i by (simp only: m nth_map_upt) simp
  finally show "snd (outs ! i) = tr @ take (Suc i) (message_calls ticket_id params)" .
qed


theorem send_message_to_ticket_probing_witness:
  "send_message_to_ticket (world_of third_shape_client) [] 5 ''hi'' None None False None None =
     (Inr (PDict [(''id'', PInt 11)]),
      [ArticleCreateKw (PDict [(''ticket_id'', PInt 5), (''body'', PStr ''hi''), (''internal'', PBool False)]),
       ArticleCreatePos (PDict [(''ticket_id'', PInt 5), (''body'', PStr ''hi''), (''internal'', PBool False)]),
       ArticleCreateIdPos 5 (PDict [(''ticket_id'', PInt 5), (''body'', PStr ''hi''), (''internal'', PBool False)])]) \<and>
   length (snd (send_message_to_ticket (world_of third_shape_client) [] 5 ''hi'' None None False
                  None None)) = 3 \<and>
   send_message_to_ticket (world_of offline_client) [] 5 ''hi'' None None False None None =
     (Inl (Exn RuntimeError ''Could not create ticket article. Last error: connection refused''),
      message_calls 5 (PDict [(''ticket_id'', PInt 5), (''body'', PStr ''hi''), (''internal'', PBool False)]))"
proof -
  let ?P = "PDict [(''ticket_id'', PInt 5), (''body'', PStr ''hi''), (''internal'', PBool False)]"
  have p: "PDict (message_params 5 ''hi'' None None False None None) = ?P"
    by (simp add: message_params_def)
  have o: "outcomes third_shape_client []
             (message_callers third_shape_client 5 ?P) =
     [(Inl (Exn TypeError ''create() got an unexpected keyword argument''), [ArticleCreateKw ?P]),
      (Inl (Exn OtherError ''422 Unprocessable Entity''), [ArticleCreateKw ?P, ArticleCreatePos ?P]),
      (Inr (PDict [(''id'', PInt 11)]),
       [ArticleCreateKw ?P, ArticleCreatePos ?P, ArticleCreateIdPos 5 ?P]),
      (Inr PNone,
       [ArticleCreateKw ?P, ArticleCreatePos ?P, ArticleCreateIdPos 5 ?P, ArticleCreateExpanded ?P]),
      (Inr PNone,
       [ArticleCreateKw ?P, ArticleCreatePos ?P, ArticleCreateIdPos 5 ?P, ArticleCreateExpanded ?P,
        TicketUpdateKw 5 (PDict [(''article'', ?P)])]),
      (Inr PNone,
       [ArticleCreateKw ?P, ArticleCreatePos ?P, ArticleCreateIdPos 5 ?P, ArticleCreateExpanded ?P,
        TicketUpdateKw 5 (PDict [(''article'', ?P)]),
        TicketUpdatePos 5 (PDict [(''article'', ?P)])])]"
    by (simp add: message_callers_def third_shape_client_def invoke_def)
  note t = send_message_to_ticket_probing [where w = "world_of third_shape_client" and cl = third_shape_client
      and tr = "[]" and ticket_id = 5 and message = "''hi''" and subject = None
      and author_id = None and internal = False and article_type = None
      and additional_params = None, OF init_world_of refl refl refl refl]
  from t have "2 < length (message_callers third_shape_client 5 ?P) \<and>
      (\<forall>j<2. \<not> succeeded (fst (outcomes third_shape_client []
                  (message_callers third_shape_client 5 ?P) ! j))) \<and>
      succeeded (fst (outcomes third_shape_client []
                  (message_callers third_shape_client 5 ?P) ! 2)) \<longrightarrow>
      send_message_to_ticket (world_of third_shape_client) [] 5 ''hi'' None None False None None =
        outcomes third_shape_client [] (message_callers third_shape_client 5 ?P) ! 2"
    unfolding p by blast
  moreover have "2 < length (message_callers third_shape_client 5 ?P)"
    by (simp add: message_callers_def third_shape_client_def)
  moreover have "\<forall>j<2. \<not> succeeded (fst (outcomes third_shape_client []
                  (message_callers third_shape_client 5 ?P) ! j))"
    unfolding o by (simp add: succeeded_def less_Suc_eq numeral_2_eq_2)
  moreover have "succeeded (fst (outcomes third_shape_client []
                  (message_callers third_shape_client 5 ?P) ! 2))"
    unfolding o by (simp add: succeeded_def)
  ultimately have a: "send_message_to_ticket (world_of third_shape_client) [] 5 ''hi'' None None
       False None None =
        (Inr (PDict [(''id'', PInt 11)]),
         [ArticleCreateKw ?P, ArticleCreatePos ?P, ArticleCreateIdPos 5 ?P])"
    unfolding o by simp
  have o2: "outcomes offline_client [] (message_callers offline_client 5 ?P) =
     [(Inl (Exn OtherError ''connection refused''), [ArticleCreateKw ?P]),
      (Inl (Exn OtherError ''connection refused''), [ArticleCreateKw ?P, ArticleCreatePos ?P]),
      (Inl (Exn OtherError ''connection refused''),
       [ArticleCreateKw ?P, ArticleCreatePos ?P, ArticleCreateIdPos 5 ?P]),
      (Inl (Exn OtherError ''connection refused''),
       [ArticleCreateKw ?P, ArticleCreatePos ?P, ArticleCreateIdPos 5 ?P, ArticleCreateExpanded ?P]),
      (Inl (Exn OtherError ''connection refused''),
       [ArticleCreateKw ?P, ArticleCreatePos ?P, ArticleCreateIdPos 5 ?P, ArticleCreateExpanded ?P,
        TicketUpdateKw 5 (PDict [(''article'', ?P)])]),
      (Inl (Exn OtherError ''connection refused''),
       [ArticleCreateKw ?P, ArticleCreatePos ?P, ArticleCreateIdPos 5 ?P, ArticleCreateExpanded ?P,
        TicketUpdateKw 5 (PDict [(''article'', ?P)]),
        TicketUpdatePos 5 (PDict [(''article'', ?P)])])]"
    by (simp add: message_callers_def offline_client_def invoke_def)
  note t2 = send_message_to_ticket_probing [where w = "world_of offline_client" and cl = offline_client
      and tr = "[]" and ticket_id = 5 and message = "''hi''" and subject = None
      and author_id = None and internal = False and article_type = None
      and additional_params = None, OF init_world_of refl refl refl refl]
  from t2 have "(\<forall>j<length (message_callers offline_client 5 ?P).
        \<not> succeeded (fst (outcomes offline_client [] (message_callers offline_client 5 ?P) ! j))) \<longrightarrow>
      send_message_to_ticket (world_of offline_client) [] 5 ''hi'' None None False None None =
        (Inl (Exn RuntimeError
                 (''Could not create ticket article. Last error: '' @
                  show_error (last_error_of
                    (map fst (outcomes offline_client [] (message_callers offline_client 5 ?P)))
                    None))),
         last ([] # map snd (outcomes offline_client [] (message_callers offline_client 5 ?P))))"
    unfolding p by blast
  moreover have "\<forall>x \<in> set (outcomes offline_client [] (message_callers offline_client 5 ?P)).
        \<not> succeeded (fst x)"
    unfolding o2 by (simp add: succeeded_def)
  then have "\<forall>j<length (message_callers offline_client 5 ?P).
        \<not> succeeded (fst (outcomes offline_client [] (message_callers offline_client 5 ?P) ! j))"
    by (metis nth_mem outcomes_length)
  ultimately have b: "send_message_to_ticket (world_of offline_client) [] 5 ''hi'' None None
       False None None =
     (Inl (Exn RuntimeError ''Could not create ticket article. Last error: connection refused''),
      message_calls 5 ?P)"
    unfolding o2 by (simp add: show_error_def message_calls_def)
  from a b show ?thesis by simp
qed

section \<open>Consolidated ticket view: properties\<close>

lemma key_eq_refl: "key_eq k k"
  by (cases k) (simp_all add: key_eq_def)

lemma dict_store_keys: "set (map fst m) \<subseteq> set (map fst (dict_store m k v))"
proof (induction m)
  case Nil
  show ?case by simp
next
  case (Cons kv m)
  obtain k' v' where kv: "kv = (k', v')" by (cases kv)
  show ?case
  proof (cases "key_eq k' k")
    case True
    then show ?thesis by (simp add: kv)
  next
    case False
    with Cons.IH show ?thesis by (simp add: kv subset_insertI2)
  qed
qed

lemma dict_store_has_key: "\<exists>k' \<in> set (map fst (dict_store m k v)). key_eq k' k"
proof (induction m)
  case Nil
  then show ?case by (simp add: key_eq_refl)
next
  case (Cons kv m)
  then show ?case by (cases kv) auto
qed

lemma filter_by_ticket_dicts:
  "filter_by_ticket xs ticket_id = Inr arts \<Longrightarrow> \<forall>a \<in> set arts. is_dict a"
proof (induction xs arbitrary: arts)
  case Nil
  then show ?case by simp
next
  case (Cons x xs)
  then show ?case
    by (cases x) (auto simp: is_dict_def split: sum.splits if_splits)
qed

lemma get_all_articles_returns:
  assumes "init_zammad_client w = Inr cl" and "\<forall>tr1 page. collect_pages cl tr1 page \<noteq> None"
  shows "\<exists>r. get_all_articles w tr = Some r"
proof -
  obtain r t where i: "invoke cl tr ArticleAll = (r, t)"
    by (cases "invoke cl tr ArticleAll")
  show ?thesis
  proof (cases r)
    case (Inl e)
    with assms i show ?thesis by (simp add: get_all_articles_def)
  next
    case (Inr page)
    from assms(2) have "collect_pages cl t page \<noteq> None" by blast
    with assms i Inr show ?thesis by (auto simp: get_all_articles_def)
  qed
qed

lemma get_ticket_articles_returns:
  assumes "init_zammad_client w = Inr cl" and "\<forall>tr1 page. collect_pages cl tr1 page \<noteq> None"
  shows "\<exists>r t. get_ticket_articles w tr ticket_id = Some (r, t) \<and>
           (\<forall>arts. r = Inr arts \<longrightarrow> (\<forall>a \<in> set arts. is_dict a))"
proof -
  define pg where "pg =
    (case invoke cl tr ArticleAll of
       (Inl e, tr1) \<Rightarrow> if kind e = TypeError then invoke cl tr1 ArticleAll else (Inl e, tr1)
     | (Inr page, tr1) \<Rightarrow> (Inr page, tr1))"
  obtain r t where p: "pg = (r, t)" by (cases pg)
  have eq: "get_ticket_articles w tr ticket_id =
     (case pg of
        (Inl e, tr2) \<Rightarrow> Some (Inl e, tr2)
      | (Inr page, tr2) \<Rightarrow>
          (case collect_pages cl tr2 page of
             None \<Rightarrow> None
           | Some (Inl e, tr3) \<Rightarrow> Some (Inl e, tr3)
           | Some (Inr all_articles, tr3) \<Rightarrow>
               Some (filter_by_ticket all_articles ticket_id, tr3)))"
    using assms(1) by (simp add: get_ticket_articles_def pg_def)
  show ?thesis
  proof (cases r)
    case (Inl e)
    with p show ?thesis by (simp add: eq)
  next
    case (Inr page)
    from assms(2) have "collect_pages cl t page \<noteq> None" by blast
    then obtain x t' where c: "collect_pages cl t page = Some (x, t')"
      by (cases "collect_pages cl t page") auto
    show ?thesis
    proof (cases x)
      case (Inl e)
      with p Inr c show ?thesis by (simp add: eq)
    next
      case all: (Inr all_articles)
      with p Inr c show ?thesis
        by (auto simp: eq dest: filter_by_ticket_dicts)
    qed
  qed
qed

lemma fetch_articles_returns:
  assumes "init_zammad_client w = Inr cl" and "\<forall>tr1 page. collect_pages cl tr1 page \<noteq> None"
  shows "\<exists>arts t. fetch_articles w tr ticket_id = Some (arts, t) \<and> (\<forall>a \<in> set arts. is_dict a)"
proof -
  from get_all_articles_returns [OF assms] obtain r t where g: "get_all_articles w tr = Some (r, t)"
    by fastforce
  define f where "f = (case r of Inl e \<Rightarrow> Inl e | Inr all_articles \<Rightarrow> filter_by_ticket all_articles ticket_id)"
  have eq: "fetch_articles w tr ticket_id =
     (case f of
        Inr arts \<Rightarrow> Some (arts, t)
      | Inl e \<Rightarrow>
          (case get_ticket_articles w t ticket_id of
             None \<Rightarrow> None
           | Some (Inl e2, tr2) \<Rightarrow> Some ([], tr2)
           | Some (Inr arts, tr2) \<Rightarrow> Some (arts, tr2)))"
    by (simp add: fetch_articles_def g f_def)
  show ?thesis
  proof (cases f)
    case (Inr arts)
    then have "\<forall>a \<in> set arts. is_dict a"
      by (cases r) (auto simp: f_def dest: filter_by_ticket_dicts)
    with Inr show ?thesis by (simp add: eq)
  next
    case (Inl e)
    from get_ticket_articles_returns [OF assms, of t ticket_id]
    obtain r2 t2 where k: "get_ticket_articles w t ticket_id = Some (r2, t2)"
      and d: "\<forall>arts. r2 = Inr arts \<longrightarrow> (\<forall>a \<in> set arts. is_dict a)"
      by blast
    with Inl show ?thesis by (cases r2) (simp_all add: eq)
  qed
qed

lemma list_article_attachments_returns:
  assumes init: "init_zammad_client w = Inr cl"
    and tot: "\<forall>tr1 page. collect_pages cl tr1 page \<noteq> None"
  shows "\<exists>v tr'. list_article_attachments w tr ticket_id article_id = Some (Inr v, tr')"
proof -
  obtain r1 tr1 where e: "embedded_attachments cl tr ticket_id article_id = (r1, tr1)"
    by (cases "embedded_attachments cl tr ticket_id article_id")
  have "\<exists>r. listed_attachments cl tr1 ticket_id article_id = Some r"
    by (rule listed_attachments_total [OF tot])
  then obtain r2 tr2 where l: "listed_attachments cl tr1 ticket_id article_id = Some (r2, tr2)"
    by auto
  obtain r3 tr3 where g: "legacy_attachments cl tr2 article_id = (r3, tr3)"
    by (cases "legacy_attachments cl tr2 article_id")
  from init e l g show ?thesis
    by (cases r1; cases r2; cases r3) (simp_all add: list_article_attachments_def)
qed

lemma attach_loop_returns:
  assumes init: "init_zammad_client w = Inr cl"
    and tot: "\<forall>tr1 page. collect_pages cl tr1 page \<noteq> None"
  shows "\<forall>a \<in> set arts. is_dict a \<Longrightarrow> scalar_ids arts \<Longrightarrow>
         \<exists>m tr'. attach_loop w tr ticket_id arts m0 = Some (Inr m, tr') \<and>
                 set (map fst m0) \<subseteq> set (map fst m) \<and>
                 (\<forall>a \<in> set arts. \<exists>k \<in> set (map fst m). key_eq k (id_of a))"
proof (induction arts arbitrary: tr m0)
  case Nil
  then show ?case by simp
next
  case (Cons art arts)
  from Cons.prems obtain kvs where art: "art = PDict kvs"
    by (cases art) (auto simp: is_dict_def)
  define aid where "aid = id_of art"
  have get: "py_get art ''id'' PNone = Inr aid"
    by (simp add: art aid_def id_of_def)
  from Cons.prems have h: "hashable aid"
    by (simp add: scalar_ids_def aid_def)
  from list_article_attachments_returns [OF init tot, of tr ticket_id aid]
  obtain v tr1 where l: "list_article_attachments w tr ticket_id aid = Some (Inr v, tr1)"
    by blast
  from Cons.prems have rest: "\<forall>a \<in> set arts. is_dict a" "scalar_ids arts"
    by (simp_all add: scalar_ids_def)
  from Cons.IH [OF rest, of tr1 "dict_store m0 aid v"]
  obtain m tr' where r: "attach_loop w tr1 ticket_id arts (dict_store m0 aid v) = Some (Inr m, tr')"
    and sub: "set (map fst (dict_store m0 aid v)) \<subseteq> set (map fst m)"
    and cov: "\<forall>a \<in> set arts. \<exists>k \<in> set (map fst m). key_eq k (id_of a)"
    by blast
  have step: "attach_loop w tr ticket_id (art # arts) m0 = Some (Inr m, tr')"
    using get l h r by simp
  have "set (map fst m0) \<subseteq> set (map fst m)"
    using dict_store_keys [of m0 aid v] sub by blast
  moreover have "\<exists>k \<in> set (map fst m). key_eq k (id_of art)"
    using dict_store_has_key [of m0 aid v] sub aid_def by blast
  ultimately show ?case
    using step cov by auto
qed

text \<open>
  Against a backend whose \<^verbatim>\<open>next_page()\<close> never returns a falsy result the loop of the
  page collector does not end, and neither does an operation that collects pages.
\<close>

lemma collect_loop_endless:
  "collect_loop endless_client tr (PObj True it (Some h) rd) items = None"
proof (cases "collect_loop endless_client tr (PObj True it (Some h) rd) items")
  case None
  then show ?thesis .
next
  case (Some r)
  have "endless_client = endless_client \<longrightarrow>
        (\<exists>it' h' rd'. PObj True it (Some h) rd = PObj True it' (Some h') rd') \<longrightarrow> False"
  proof (rule collect_loop.raw_induct
      [where P = "\<lambda>cl tr page items r.
         cl = endless_client \<longrightarrow> (\<exists>it h rd. page = PObj True it (Some h) rd) \<longrightarrow> False",
       OF _ Some])
    fix f cl tr page items r
    assume IH: "\<And>cl tr page items r. f cl tr page items = Some r \<Longrightarrow>
        cl = endless_client \<longrightarrow> (\<exists>it h rd. page = PObj True it (Some h) rd) \<longrightarrow> False"
      and eq: "(case next_page_of page of
        None \<Rightarrow> Some (Inr items, tr)
      | Some h \<Rightarrow>
          (case respond cl tr (NextPage h) of
             Inl e \<Rightarrow> Some (Inl e, tr @ [NextPage h])
           | Inr page' \<Rightarrow>
               if \<not> truthy page' then Some (Inr items, tr @ [NextPage h])
               else f cl (tr @ [NextPage h]) page' (extend_or_append items page'))) = Some r"
    show "cl = endless_client \<longrightarrow> (\<exists>it h rd. page = PObj True it (Some h) rd) \<longrightarrow> False"
    proof (intro impI)
      assume c: "cl = endless_client" and p: "\<exists>it h rd. page = PObj True it (Some h) rd"
      then obtain it h rd where page: "page = PObj True it (Some h) rd" by blast
      from eq c page
      have "f endless_client (tr @ [NextPage h]) (PObj True (Some [PInt 1]) (Some 0) None)
              (extend_or_append items (PObj True (Some [PInt 1]) (Some 0) None)) = Some r"
        by (simp add: endless_client_def)
      from IH [OF this] show False by blast
    qed
  qed
  then show ?thesis by blast
qed

lemma get_ticket_details_endless:
  "get_ticket_details (world_of endless_client) tr ticket_id include_attachments = None"
proof -
  have i: "init_zammad_client (world_of endless_client) = Inr endless_client"
    by (rule init_world_of)
  have a: "get_all_articles (world_of endless_client) tr1 = None" for tr1
    by (simp add: get_all_articles_def i invoke_def collect_pages_def collect_loop_endless
          endless_client_def [THEN arg_cong, of respond] endless_client_def [THEN arg_cong, of has_attr])
  show ?thesis
    by (simp add: get_ticket_details_def i fetch_articles_def a split: prod.split)
qed

text \<open>
  C1, as the claim states it, fails. Without a base URL the ticket fetch and the article
  fetch both fail, and \<open>get_ticket_details\<close> raises: its first statement is
  \<^verbatim>\<open>client = init_zammad_client()\<close>, outside every \<^verbatim>\<open>try\<close>. When the backend answers
  the ticket fetch with \<^verbatim>\<open>None\<close>, the \<open>ticket\<close> field is \<^verbatim>\<open>None\<close>. When an article
  has a list as its id, the assignment to \<^verbatim>\<open>attachments_map[aid]\<close> raises. When the
  article listing never ends, nothing is returned.
\<close>

theorem get_ticket_details_counterexample:
  "get_ticket_details unset_world [] 5 True =
     Some (Inl (Exn EnvironmentError ''Environment variable `zammad_url` is not set''), []) \<and>
   get_ticket_details (world_of null_client) [] 5 True =
     Some (Inr \<lparr>ticket = PNone, articles = [], attachments = []\<rparr>, [TicketFind 5, ArticleAll]) \<and>
   get_ticket_details (world_of bad_id_client) [] 5 True =
     Some (Inl (Exn TypeError (''unhashable type: '' @ [squote] @ ''list'' @ [squote])),
           [TicketFind 5, ArticleAll, ArticleFindKw 5 (PList [PInt 7]),
            AttachmentAllKw 5 (PList [PInt 7]), ArticleFindPos (PList [PInt 7])]) \<and>
   get_ticket_details (world_of endless_client) [] 5 True = None"
proof -
  have "get_ticket_details unset_world [] 5 True =
     Some (Inl (Exn EnvironmentError ''Environment variable `zammad_url` is not set''), [])"
    by code_simp
  moreover have "get_ticket_details (world_of null_client) [] 5 True =
     Some (Inr \<lparr>ticket = PNone, articles = [], attachments = []\<rparr>, [TicketFind 5, ArticleAll])"
    by code_simp
  moreover have "get_ticket_details (world_of bad_id_client) [] 5 True =
     Some (Inl (Exn TypeError (''unhashable type: '' @ [squote] @ ''list'' @ [squote])),
           [TicketFind 5, ArticleAll, ArticleFindKw 5 (PList [PInt 7]),
            AttachmentAllKw 5 (PList [PInt 7]), ArticleFindPos (PList [PInt 7])])"
    by code_simp
  moreover have "get_ticket_details (world_of endless_client) [] 5 True = None"
    by (rule get_ticket_details_endless)
  ultimately show ?thesis by simp
qed

text \<open>
  C1, amended: once the connection is made, if collecting pages ends and the ids of the
  fetched articles can be hashed, \<open>get_ticket_details\<close> returns a detail view and does
  not raise, whether the ticket fetch and the article fetches succeed or fail. Its
  \<open>ticket\<close> is the fetched ticket, or on failure the placeholder with the requested id
  and the text of the error; it is not \<^verbatim>\<open>None\<close> unless the backend returned \<^verbatim>\<open>None\<close>
  as the ticket. Its articles are those of the filtered listing, else those of the
  ticket-scoped call, else none. Without \<^verbatim>\<open>include_attachments\<close> the attachment map is
  empty; with it, every article has an entry.
\<close>

theorem get_ticket_details_total:
  assumes init: "init_zammad_client w = Inr cl"
    and tot: "\<forall>tr1 page. collect_pages cl tr1 page \<noteq> None"
    and ids: "\<forall>arts tr2. fetch_articles w (snd (get_ticket w tr ticket_id)) ticket_id =
                Some (arts, tr2) \<longrightarrow> scalar_ids arts"
  shows "(\<exists>d tr'.
           get_ticket_details w tr ticket_id include_attachments = Some (Inr d, tr') \<and>
           ticket d =
             (case fst (get_ticket w tr ticket_id) of
                Inr t \<Rightarrow> t
              | Inl e \<Rightarrow> PDict [(''id'', PInt ticket_id), (''error'', PStr (msg e))]) \<and>
           (fst (get_ticket w tr ticket_id) \<noteq> Inr PNone \<longrightarrow> ticket d \<noteq> PNone) \<and>
           (\<exists>tr2. fetch_articles w (snd (get_ticket w tr ticket_id)) ticket_id =
                    Some (articles d, tr2)) \<and>
           (\<not> include_attachments \<longrightarrow> attachments d = []) \<and>
           (include_attachments \<longrightarrow>
              (\<forall>a \<in> set (articles d). \<exists>k \<in> set (map fst (attachments d)). key_eq k (id_of a)))) \<and>
         (get_all_articles w tr0 = Some (Inr all_articles, t) \<and>
          filter_by_ticket all_articles ticket_id = Inr arts \<longrightarrow>
            fetch_articles w tr0 ticket_id = Some (arts, t)) \<and>
         (get_all_articles w tr0 = Some (r0, t) \<and> primary_failed r0 ticket_id \<and>
          get_ticket_articles w t ticket_id = Some (Inr arts, t2) \<longrightarrow>
            fetch_articles w tr0 ticket_id = Some (arts, t2)) \<and>
         (get_all_articles w tr0 = Some (r0, t) \<and> primary_failed r0 ticket_id \<and>
          get_ticket_articles w t ticket_id = Some (Inl e, t2) \<longrightarrow>
            fetch_articles w tr0 ticket_id = Some ([], t2))"
proof (intro conjI impI)
  assume "get_all_articles w tr0 = Some (Inr all_articles, t) \<and>
          filter_by_ticket all_articles ticket_id = Inr arts"
  then show "fetch_articles w tr0 ticket_id = Some (arts, t)"
    by (simp add: fetch_articles_def)
next
  assume "get_all_articles w tr0 = Some (r0, t) \<and> primary_failed r0 ticket_id \<and>
          get_ticket_articles w t ticket_id = Some (Inr arts, t2)"
  then show "fetch_articles w tr0 ticket_id = Some (arts, t2)"
    by (cases r0) (auto simp: fetch_articles_def primary_failed_def isl_def)
next
  assume "get_all_articles w tr0 = Some (r0, t) \<and> primary_failed r0 ticket_id \<and>
          get_ticket_articles w t ticket_id = Some (Inl e, t2)"
  then show "fetch_articles w tr0 ticket_id = Some ([], t2)"
    by (cases r0) (auto simp: fetch_articles_def primary_failed_def isl_def)
next
  obtain r tr1 where g: "get_ticket w tr ticket_id = (r, tr1)"
    by (cases "get_ticket w tr ticket_id")
  define tk where "tk =
    (case r of Inr t \<Rightarrow> t | Inl e \<Rightarrow> PDict [(''id'', PInt ticket_id), (''error'', PStr (msg e))])"
  from fetch_articles_returns [OF init tot, of tr1 ticket_id]
  obtain arts tr2 where f: "fetch_articles w tr1 ticket_id = Some (arts, tr2)"
    and dicts: "\<forall>a \<in> set arts. is_dict a"
    by blast
  from ids g f have sc: "scalar_ids arts" by simp
  have tk_ok: "r \<noteq> Inr PNone \<longrightarrow> tk \<noteq> PNone"
    by (cases r) (auto simp: tk_def)
  show "\<exists>d tr'.
           get_ticket_details w tr ticket_id include_attachments = Some (Inr d, tr') \<and>
           ticket d =
             (case fst (get_ticket w tr ticket_id) of
                Inr t \<Rightarrow> t
              | Inl e \<Rightarrow> PDict [(''id'', PInt ticket_id), (''error'', PStr (msg e))]) \<and>
           (fst (get_ticket w tr ticket_id) \<noteq> Inr PNone \<longrightarrow> ticket d \<noteq> PNone) \<and>
           (\<exists>tr2. fetch_articles w (snd (get_ticket w tr ticket_id)) ticket_id =
                    Some (articles d, tr2)) \<and>
           (\<not> include_attachments \<longrightarrow> attachments d = []) \<and>
           (include_attachments \<longrightarrow>
              (\<forall>a \<in> set (articles d). \<exists>k \<in> set (map fst (attachments d)). key_eq k (id_of a)))"
  proof (cases include_attachments)
    case False
    with init g f have "get_ticket_details w tr ticket_id include_attachments =
        Some (Inr \<lparr>ticket = tk, articles = arts, attachments = []\<rparr>, tr2)"
      by (simp add: get_ticket_details_def tk_def)
    with False g f tk_ok show ?thesis
      by (simp add: tk_def)
  next
    case True
    from attach_loop_returns [OF init tot dicts sc, of tr2 ticket_id "[]"]
    obtain m tr3 where a: "attach_loop w tr2 ticket_id arts [] = Some (Inr m, tr3)"
      and cov: "\<forall>a \<in> set arts. \<exists>k \<in> set (map fst m). key_eq k (id_of a)"
      by blast
    from init g f a True have "get_ticket_details w tr ticket_id include_attachments =
        Some (Inr \<lparr>ticket = tk, articles = arts, attachments = m\<rparr>, tr3)"
      by (simp add: get_ticket_details_def tk_def)
    with True g f tk_ok cov show ?thesis
      by (simp add: tk_def)
  qed
qed


theorem get_ticket_details_total_witness:
  "get_ticket_details (world_of flaky_client) [] 5 True =
     Some (Inr \<lparr>ticket = PDict [(''id'', PInt 5), (''error'', PStr ''ticket not found'')],
                articles = [art7, art8],
                attachments =
                  [(PInt 7, PList [PDict [(''id'', PInt 1), (''filename'', PStr ''a.png'')]]),
                   (PInt 8, PList [])]\<rparr>,
           [TicketFind 5, ArticleAll, ArticleAll, NextPage 1, ArticleFindKw 5 (PInt 7),
            ArticleFindKw 5 (PInt 8), AttachmentAllKw 5 (PInt 8), ArticleFindPos (PInt 8)])"
proof -
  have tot: "\<forall>tr1 page. collect_pages flaky_client tr1 page \<noteq> None"
    by (simp add: collect_pages_def collect_loop.simps flaky_client_def split: option.split)
  have f: "fetch_articles (world_of flaky_client)
             (snd (get_ticket (world_of flaky_client) [] 5)) 5 =
           Some ([art7, art8], [TicketFind 5, ArticleAll, ArticleAll, NextPage 1])"
    by code_simp
  have sc: "scalar_ids [art7, art8]"
    by (simp add: scalar_ids_def id_of_def art7_def art8_def)
  have ids: "\<forall>arts tr2. fetch_articles (world_of flaky_client)
                (snd (get_ticket (world_of flaky_client) [] 5)) 5 = Some (arts, tr2) \<longrightarrow>
              scalar_ids arts"
    unfolding f using sc by simp
  from get_ticket_details_total [OF init_world_of tot ids, of True]
  obtain d tr' where "get_ticket_details (world_of flaky_client) [] 5 True = Some (Inr d, tr')"
    by blast
  moreover have "get_ticket_details (world_of flaky_client) [] 5 True =
     Some (Inr \<lparr>ticket = PDict [(''id'', PInt 5), (''error'', PStr ''ticket not found'')],
                articles = [art7, art8],
                attachments =
                  [(PInt 7, PList [PDict [(''id'', PInt 1), (''filename'', PStr ''a.png'')]]),
                   (PInt 8, PList [])]\<rparr>,
           [TicketFind 5, ArticleAll, ArticleAll, NextPage 1, ArticleFindKw 5 (PInt 7),
            ArticleFindKw 5 (PInt 8), AttachmentAllKw 5 (PInt 8), ArticleFindPos (PInt 8)])"
    by code_simp
  ultimately show ?thesis by simp
qed

section \<open>Attachment download: properties\<close>

text \<open>
  What is written when the chosen response is a dictionary with a \<^verbatim>\<open>data\<close> field: the
  decoded bytes; when decoding raises, the JSON text of the dictionary; and when that
  cannot be serialized either, nothing, and the \<^verbatim>\<open>TypeError\<close> of \<^verbatim>\<open>json.dumps\<close>
  leaves the function.
\<close>

lemma download_attachment_data:
  assumes init: "init_zammad_client w = Inr cl"
    and chosen: "try_callers cl tr (download_callers cl attachment_id ticket_id article_id) None =
                   ((Some (PDict kvs), last_error), tr1)"
    and data: "map_of kvs ''data'' = Some d"
  shows "(b64decode d = Inr bs \<longrightarrow>
            download_attachment w tr fs attachment_id ticket_id article_id dest_path =
              (Inr dest_path, tr1, fs(dest_path \<mapsto> bs))) \<and>
         (b64decode d = Inl e \<and> json_dumps (PDict kvs) = Inr s \<longrightarrow>
            download_attachment w tr fs attachment_id ticket_id article_id dest_path =
              (Inr dest_path, tr1, fs(dest_path \<mapsto> s))) \<and>
         (b64decode d = Inl e \<and> json_dumps (PDict kvs) = Inl e' \<longrightarrow>
            download_attachment w tr fs attachment_id ticket_id article_id dest_path =
              (Inl e', tr1, fs))"
  using assms
  by (simp add: download_attachment_def extract_bytes_def serialize_def write_file_def)

text \<open>
  The two examples of the specification: \<^verbatim>\<open>{"data": base64("hello")}\<close> writes
  \<^verbatim>\<open>hello\<close>, and \<^verbatim>\<open>{"data": "not-base64!!"}\<close> writes its own JSON text.
\<close>

lemma download_attachment_examples:
  "fst (download_attachment (world_of (download_double (PDict [(''data'', PStr ''aGVsbG8='')])))
          [] Map.empty 1 5 7 ''out.bin'') = Inr ''out.bin'' \<and>
   snd (snd (download_attachment (world_of (download_double (PDict [(''data'', PStr ''aGVsbG8='')])))
          [] Map.empty 1 5 7 ''out.bin'')) ''out.bin'' = Some ''hello'' \<and>
   fst (download_attachment (world_of (download_double (PDict [(''data'', PStr ''not-base64!!'')])))
          [] Map.empty 1 5 7 ''out.bin'') = Inr ''out.bin'' \<and>
   snd (snd (download_attachment (world_of (download_double (PDict [(''data'', PStr ''not-base64!!'')])))
          [] Map.empty 1 5 7 ''out.bin'')) ''out.bin'' =
     Some (''{'' @ quoted ''data'' @ '': '' @ quoted ''not-base64!!'' @ ''}'')"
  by code_simp

text \<open>
  C6 does not hold on the code: for the response \<^verbatim>\<open>{"data": b"PNG"}\<close>, whose
  \<^verbatim>\<open>data\<close> is not base64, the fallback \<^verbatim>\<open>json.dumps(resp)\<close> in the \<^verbatim>\<open>except\<close>
  branch raises \<^verbatim>\<open>TypeError\<close> and nothing guards it (the last branch of the same
  normalization does guard it): \<open>download_attachment\<close> raises and writes no file.
\<close>

theorem download_attachment_unserializable:
  "b64decode (PBytes ''PNG'') = Inl (Exn BinasciiError ''Incorrect padding'') \<and>
   fst (download_attachment (world_of (download_double (PDict [(''data'', PBytes ''PNG'')])))
          [] Map.empty 1 5 7 ''out.bin'') =
     Inl (Exn TypeError ''Object of type bytes is not JSON serializable'') \<and>
   snd (snd (download_attachment (world_of (download_double (PDict [(''data'', PBytes ''PNG'')])))
          [] Map.empty 1 5 7 ''out.bin'')) ''out.bin'' = None"
  by code_simp

end
